theory Spec2Isabelle
  imports Complex_Main
begin

section \<open>The route planner of the EV charging atlas\<close>

text \<open>
  The build scripts of the atlas write a page whose route planner is a JavaScript program
  held in a Python string. This theory embeds that program. Three sources hold it:
  \<^item> \<^verbatim>\<open>build_ev_atlas_v6_with_my_updates_.py\<close>: \<^verbatim>\<open>haversineKm\<close>, \<^verbatim>\<open>minDistKm\<close>,
    \<^verbatim>\<open>nominatimSuggest\<close>, \<^verbatim>\<open>geocodeFirst\<close>, \<^verbatim>\<open>doRoute\<close> and the handler of the clear button;
  \<^item> the fragment whose name starts \<^verbatim>\<open>function debounce(fn, ms)\<close>: a later
    \<^verbatim>\<open>nominatimSuggest\<close> that shortens the labels and removes duplicates;
  \<^item> \<^verbatim>\<open>build_ev_atlas_v7_messy.py\<close>: \<^verbatim>\<open>findRoute\<close> with the charger-gap warning.

  JavaScript numbers are modelled as real numbers: arithmetic is exact, and the
  value \<^verbatim>\<open>Infinity\<close>, which the program uses in one place, is written out as \<open>None\<close>.
\<close>

subsection \<open>Great-circle distance\<close>

text \<open>\<^verbatim>\<open>Math.atan2(y, x)\<close>: the angle of the point \<open>(x, y)\<close>, with \<open>atan2(0, 0) = 0\<close>.\<close>

definition atan2 :: "real \<Rightarrow> real \<Rightarrow> real" where
  "atan2 y x =
     (if 0 < x then arctan (y / x)
      else if x < 0 then (if 0 \<le> y then arctan (y / x) + pi else arctan (y / x) - pi)
      else if 0 < y then pi / 2
      else if y < 0 then - (pi / 2)
      else 0)"

text \<open>
  \<^verbatim>\<open>
  function haversineKm(lat1, lon1, lat2, lon2) {
    const R = 6371.0;
    const dLat = (lat2-lat1) * Math.PI/180.0;
    const dLon = (lon2-lon1) * Math.PI/180.0;
    const a = Math.sin(dLat/2)**2 + Math.cos(lat1*Math.PI/180)*Math.cos(lat2*Math.PI/180)*Math.sin(dLon/2)**2;
    const c = 2*Math.atan2(Math.sqrt(a), Math.sqrt(1-a));
    return R*c;
  }
  \<close>
\<close>

definition haversineKm :: "real \<Rightarrow> real \<Rightarrow> real \<Rightarrow> real \<Rightarrow> real" where
  "haversineKm lat1 lon1 lat2 lon2 =
     (let R = 6371;
          dLat = (lat2 - lat1) * pi / 180;
          dLon = (lon2 - lon1) * pi / 180;
          a = (sin (dLat / 2))\<^sup>2
                + cos (lat1 * pi / 180) * cos (lat2 * pi / 180) * (sin (dLon / 2))\<^sup>2;
          c = 2 * atan2 (sqrt a) (sqrt (1 - a))
      in R * c)"

subsection \<open>Distance of a point to the vertices of a polyline\<close>

text \<open>A GeoJSON position is \<^verbatim>\<open>[lon, lat]\<close>: longitude first.\<close>

type_synonym coord = "real \<times> real"

text \<open>\<^verbatim>\<open>d < best\<close> where \<^verbatim>\<open>best\<close> starts as \<^verbatim>\<open>Infinity\<close> (\<open>None\<close>).\<close>

definition below_best :: "real \<Rightarrow> real option \<Rightarrow> bool" where
  "below_best d best = (case best of None \<Rightarrow> True | Some b \<Rightarrow> d < b)"

text \<open>
  \<^verbatim>\<open>
  function minDistKm(lat, lon, coords) {
    let best = Infinity;
    for (let i=0; i<coords.length; i++) {
      const p = coords[i];
      const d = haversineKm(lat, lon, p[1], p[0]);
      if (d < best) best = d;
    }
    return best;
  }
  \<close>
  The loop, from vertex \<open>i\<close> on, is \<open>minDistKm_loop\<close> on the remaining vertices.
\<close>

fun minDistKm_loop :: "real \<Rightarrow> real \<Rightarrow> coord list \<Rightarrow> real option \<Rightarrow> real option" where
  "minDistKm_loop la lo [] best = best"
| "minDistKm_loop la lo (p # ps) best =
     (let d = haversineKm la lo (snd p) (fst p)
      in minDistKm_loop la lo ps (if below_best d best then Some d else best))"

definition minDistKm :: "real \<Rightarrow> real \<Rightarrow> coord list \<Rightarrow> real option" where
  "minDistKm la lo coords = minDistKm_loop la lo coords None"

subsection \<open>Chargers near a route\<close>

text \<open>An entry of \<^verbatim>\<open>EV_POINTS\<close>, as \<^verbatim>\<open>build_map\<close> writes it.\<close>

record ev_point =
  pt_lat :: real
  pt_lon :: real
  pt_status :: string
  pt_usage :: string
  pt_fast :: bool
  pt_title :: string
  pt_operator :: string
  pt_town :: string
  pt_state :: string
  pt_power_kw :: "real option"

text \<open>A circle marker of the near-charger layer: position and colour.\<close>

record marker =
  mk_lat :: real
  mk_lon :: real
  mk_color :: string

text \<open>\<^verbatim>\<open>dkm <= PROX_KM\<close>; \<^verbatim>\<open>Infinity\<close> is below no threshold.\<close>

definition within_km :: "real option \<Rightarrow> real \<Rightarrow> bool" where
  "within_km dkm thr = (case dkm of None \<Rightarrow> False | Some d \<Rightarrow> d \<le> thr)"

text \<open>
  \<^verbatim>\<open>
  const nearPts = [];
  EV_POINTS.forEach(pt => {
    const dkm = minDistKm(pt.lat, pt.lon, coords);
    if (dkm <= PROX_KM) nearPts.push([pt.lat, pt.lon]);
    if (dkm <= PROX_KM) {
      const c = pt.fast ? '#2563eb' : '#22c55e';
      const cm = L.circleMarker([pt.lat, pt.lon], { ... color: c ... });
      cm.addTo(nearLayer);
    }
  });
  \<close>
  The body of the loop takes the pair (\<^verbatim>\<open>nearPts\<close>, markers of \<^verbatim>\<open>nearLayer\<close>) to the next
  one; \<^verbatim>\<open>PROX_KM\<close> is the parameter \<open>thr\<close>.
\<close>

definition near_step ::
  "real \<Rightarrow> coord list \<Rightarrow> (real \<times> real) list \<times> marker list \<Rightarrow> ev_point
     \<Rightarrow> (real \<times> real) list \<times> marker list" where
  "near_step thr coords acc pt =
     (let dkm = minDistKm (pt_lat pt) (pt_lon pt) coords;
          nearPts = (if within_km dkm thr then fst acc @ [(pt_lat pt, pt_lon pt)] else fst acc);
          layer = (if within_km dkm thr
                   then (let c = (if pt_fast pt then ''#2563eb'' else ''#22c55e'')
                         in snd acc @ [\<lparr>mk_lat = pt_lat pt, mk_lon = pt_lon pt, mk_color = c\<rparr>])
                   else snd acc)
      in (nearPts, layer))"

definition near_chargers ::
  "real \<Rightarrow> coord list \<Rightarrow> ev_point list \<Rightarrow> (real \<times> real) list \<times> marker list" where
  "near_chargers thr coords points = foldl (near_step thr coords) ([], []) points"

definition PROX_KM :: real where
  "PROX_KM = 5"

subsection \<open>The charger-gap warning\<close>

text \<open>
  From \<^verbatim>\<open>findRoute\<close> of version 7; \<^verbatim>\<open>coords\<close> holds \<^verbatim>\<open>[lat, lon]\<close> pairs there.
  \<^verbatim>\<open>
  const coords = routeData.routes[0].geometry.coordinates.map(c => [c[1], c[0]]);
  ...
  let maxGap = 0, lastIdx = 0;
  for (let i = 1; i < coords.length; i++) {
    const [lat1, lon1] = coords[lastIdx];
    const [lat2, lon2] = coords[i];
    const dist = 111 * Math.sqrt(Math.pow(lat2-lat1,2) + Math.pow((lon2-lon1)*Math.cos((lat1+lat2)*Math.PI/360),2));
    if (dist > CHARGER_GAP_KM) maxGap = Math.max(maxGap, dist);
    lastIdx = i;
  }
  if (maxGap > CHARGER_GAP_KM) { msgBox.innerHTML += warning }
  \<close>
\<close>

definition CHARGER_GAP_KM :: real where
  "CHARGER_GAP_KM = 300"

definition segment_km :: "real \<times> real \<Rightarrow> real \<times> real \<Rightarrow> real" where
  "segment_km p q =
     (case p of (lat1, lon1) \<Rightarrow> case q of (lat2, lon2) \<Rightarrow>
        111 * sqrt ((lat2 - lat1)\<^sup>2 + ((lon2 - lon1) * cos ((lat1 + lat2) * pi / 360))\<^sup>2))"

function gap_loop :: "real \<Rightarrow> (real \<times> real) list \<Rightarrow> nat \<Rightarrow> nat \<Rightarrow> real \<Rightarrow> real" where
  "gap_loop gap coords i lastIdx maxGap =
     (if i < length coords
      then (let d = segment_km (coords ! lastIdx) (coords ! i)
            in gap_loop gap coords (i + 1) i (if gap < d then max maxGap d else maxGap))
      else maxGap)"
  by pat_completeness auto
termination
  by (relation "measure (\<lambda>(gap, coords, i, lastIdx, maxGap). length coords - i)") auto

declare gap_loop.simps [simp del]

text \<open>The value of \<^verbatim>\<open>maxGap\<close> after the loop, and whether the warning is appended.\<close>

definition longestGap :: "real \<Rightarrow> coord list \<Rightarrow> real \<times> bool" where
  "longestGap gap geometry =
     (let coords = map (\<lambda>c. (snd c, fst c)) geometry;
          maxGap = gap_loop gap coords 1 0 0
      in (maxGap, gap < maxGap))"

subsection \<open>Strings\<close>

text \<open>
  A JavaScript string is modelled as a \<open>string\<close>; the operations below are exact on
  ASCII text. \<open>trim\<close> is \<^verbatim>\<open>String.prototype.trim\<close> for the ASCII white space
  (space, tab, line feed, vertical tab, form feed, carriage return).
\<close>

definition is_space :: "char \<Rightarrow> bool" where
  "is_space c = (c = CHR '' '' \<or> (9 \<le> (of_char c :: nat) \<and> (of_char c :: nat) \<le> 13))"

definition trim :: "string \<Rightarrow> string" where
  "trim s = rev (dropWhile is_space (rev (dropWhile is_space s)))"

text \<open>\<^verbatim>\<open>s.split(',')\<close>: the pieces between the separators; never an empty list.\<close>

fun split_on :: "char \<Rightarrow> string \<Rightarrow> string list" where
  "split_on c [] = [[]]"
| "split_on c (x # xs) =
     (if x = c then [] # split_on c xs
      else (case split_on c xs of [] \<Rightarrow> [[x]] | y # ys \<Rightarrow> (x # y) # ys))"

text \<open>\<^verbatim>\<open>parts.join(', ')\<close>.\<close>

fun join_comma :: "string list \<Rightarrow> string" where
  "join_comma [] = []"
| "join_comma [p] = p"
| "join_comma (p # q # ps) = p @ '', '' @ join_comma (q # ps)"

definition lower :: "char \<Rightarrow> char" where
  "lower c = (if 65 \<le> (of_char c :: nat) \<and> (of_char c :: nat) \<le> 90
              then char_of ((of_char c :: nat) + 32) else c)"

text \<open>\<^verbatim>\<open>/Australia/i.test(p)\<close>: the word occurs somewhere in \<open>p\<close>, in any case.\<close>

fun occurs_in :: "string \<Rightarrow> string \<Rightarrow> bool" where
  "occurs_in pat [] = (pat = [])"
| "occurs_in pat (x # xs) = (take (length pat) (x # xs) = pat \<or> occurs_in pat xs)"

definition mentions_Australia :: "string \<Rightarrow> bool" where
  "mentions_Australia p = occurs_in ''australia'' (map lower p)"

text \<open>\<^verbatim>\<open>/^\d{4}$/.test(p)\<close>: exactly four decimal digits, a postcode.\<close>

definition is_digit :: "char \<Rightarrow> bool" where
  "is_digit c = (48 \<le> (of_char c :: nat) \<and> (of_char c :: nat) \<le> 57)"

definition four_digits :: "string \<Rightarrow> bool" where
  "four_digits p = (length p = 4 \<and> list_all is_digit p)"

subsection \<open>Requests and responses\<close>

text \<open>
  A request to the network: a Nominatim search for a text, or an OSRM driving route between
  two positions (\<^verbatim>\<open>o.lon, o.lat, d.lon, d.lat\<close> in the URL).
\<close>

datatype request = NominatimSearch string | OsrmRoute real real real real

text \<open>
  What \<^verbatim>\<open>fetch\<close> gives: the promise is rejected (a transport error), or a response
  arrives with its \<^verbatim>\<open>ok\<close> flag and a body; the body is \<open>None\<close> when \<^verbatim>\<open>resp.json()\<close>
  or the first use of the parsed value throws.
\<close>

datatype 'a fetched = Rejected | Http bool "'a option"

text \<open>
  A row of Nominatim's answer; \<open>row_lat\<close> and \<open>row_lon\<close> are the numbers that
  \<^verbatim>\<open>parseFloat(d.lat)\<close> and \<^verbatim>\<open>parseFloat(d.lon)\<close> give.
\<close>

record nominatim_row =
  display_name :: string
  row_lat :: real
  row_lon :: real

text \<open>A suggestion: \<^verbatim>\<open>{ label, lat, lon }\<close>.\<close>

record place =
  label :: string
  place_lat :: real
  place_lon :: real

text \<open>
  A route of OSRM's answer. \<open>geometry\<close> is the coordinate list of the GeoJSON line, \<open>None\<close>
  when the route has no usable \<^verbatim>\<open>geometry\<close>; \<open>distance\<close> is in metres, \<open>None\<close> when absent.
\<close>

record osrm_route =
  geometry :: "coord list option"
  distance :: "real option"

text \<open>The parsed body of OSRM's answer; \<open>routes\<close> is \<open>None\<close> when the field is absent.\<close>

record osrm_data =
  routes :: "osrm_route list option"

type_synonym geo_response = "nominatim_row list fetched"
type_synonym route_response = "osrm_data fetched"

datatype response = Geo geo_response | Route route_response

subsection \<open>The suggestion cache and \<^verbatim>\<open>nominatimSuggest\<close>\<close>

text \<open>\<^verbatim>\<open>const geoCache = new Map();\<close>\<close>

type_synonym cache = "string \<rightharpoonup> place list"

text \<open>\<^verbatim>\<open>const key = which + '|' + q.trim();\<close>\<close>

definition cache_key :: "string \<Rightarrow> string \<Rightarrow> string" where
  "cache_key which q = which @ ''|'' @ trim q"

text \<open>
  \<^verbatim>\<open>
  async function nominatimSuggest(q, which) {
    const key = which + '|' + q.trim();
    if (!q || q.length < 3) return [];
    if (geoCache.has(key)) return geoCache.get(key);
    const url = 'https://nominatim.openstreetmap.org/search?...&limit=5&q=' + encodeURIComponent(q);
    try {
      const resp = await fetch(url, { headers: { 'Accept': 'application/json' } });
      if (!resp.ok) throw new Error('HTTP ' + resp.status);
      const data = await resp.json();
      const items = data.map(d => ({ label: d.display_name, lat: parseFloat(d.lat), lon: parseFloat(d.lon) }));
      geoCache.set(key, items);
      return items;
    } catch(e) { console.warn('Nominatim error', e); return []; }
  }
  \<close>
  The function runs to its \<^verbatim>\<open>await fetch\<close> (\<open>nominatimSuggest_start\<close>), and goes on when
  the answer arrives (\<open>nominatimSuggest_finish\<close>).
\<close>

datatype suggest_start = Return "place list" | Fetch string request

definition nominatimSuggest_start :: "cache \<Rightarrow> string \<Rightarrow> string \<Rightarrow> suggest_start" where
  "nominatimSuggest_start geoCache q which =
     (let key = cache_key which q
      in if length q < 3 then Return []
         else (case geoCache key of
                 Some items \<Rightarrow> Return items
               | None \<Rightarrow> Fetch key (NominatimSearch q)))"

definition row_item :: "nominatim_row \<Rightarrow> place" where
  "row_item d = \<lparr>label = display_name d, place_lat = row_lat d, place_lon = row_lon d\<rparr>"

definition nominatimSuggest_finish :: "cache \<Rightarrow> string \<Rightarrow> geo_response \<Rightarrow> place list \<times> cache" where
  "nominatimSuggest_finish geoCache key resp =
     (case resp of
        Rejected \<Rightarrow> ([], geoCache)
      | Http ok body \<Rightarrow>
          if \<not> ok then ([], geoCache)
          else (case body of
                  None \<Rightarrow> ([], geoCache)
                | Some data \<Rightarrow>
                    (let items = map row_item data
                     in (items, geoCache(key \<mapsto> items)))))"

text \<open>
  One whole call, with \<open>resp\<close> the answer the network gives if it is asked: the sequence
  returned, the cache afterwards, and the requests made.
\<close>

definition nominatimSuggest ::
  "cache \<Rightarrow> string \<Rightarrow> string \<Rightarrow> geo_response \<Rightarrow> place list \<times> cache \<times> request list" where
  "nominatimSuggest geoCache q which resp =
     (case nominatimSuggest_start geoCache q which of
        Return items \<Rightarrow> (items, geoCache, [])
      | Fetch key req \<Rightarrow>
          (case nominatimSuggest_finish geoCache key resp of
             (items, geoCache') \<Rightarrow> (items, geoCache', [req])))"

text \<open>
  A series of calls, one after the other, each with the answer the network would give it:
  the cache at the end and all requests made.
\<close>

fun suggest_series ::
  "cache \<Rightarrow> (string \<times> string \<times> geo_response) list \<Rightarrow> cache \<times> request list" where
  "suggest_series geoCache [] = (geoCache, [])"
| "suggest_series geoCache ((q, which, resp) # calls) =
     (case nominatimSuggest geoCache q which resp of
        (items, geoCache', reqs) \<Rightarrow>
          (case suggest_series geoCache' calls of
             (geoCache'', reqs') \<Rightarrow> (geoCache'', reqs @ reqs')))"

subsection \<open>The later \<^verbatim>\<open>nominatimSuggest\<close>: short labels without duplicates\<close>

text \<open>
  The fragment replaces the computation of \<^verbatim>\<open>items\<close>:
  \<^verbatim>\<open>
  const items = data.map(d => {
      const parts = d.display_name.split(',').map(p => p.trim());
      const filtered = parts.filter(p => !/Australia/i.test(p) && !/^\d{4}$/.test(p));
      const label = filtered.slice(0, 3).join(', ');
      return { label: label, lat: parseFloat(d.lat), lon: parseFloat(d.lon) };
  });
  // Deduplicate by label (keep first occurrence)
  const unique = [];
  const seen = new Set();
  for (const it of items) {
      if (!seen.has(it.label)) {
          seen.add(it.label);
          unique.push(it);
      }
  }
  geoCache.set(key, unique);
  return unique;
  \<close>
  The fragment ends there; what comes before the \<^verbatim>\<open>try\<close> is \<^verbatim>\<open>nominatimSuggest\<close> of
  version 6 word for word, and the \<^verbatim>\<open>catch\<close> clause is taken from there too.
\<close>

definition short_label :: "string \<Rightarrow> string" where
  "short_label name =
     (let parts = map trim (split_on CHR '','' name);
          filtered = filter (\<lambda>p. \<not> mentions_Australia p \<and> \<not> four_digits p) parts
      in join_comma (take 3 filtered))"

definition short_item :: "nominatim_row \<Rightarrow> place" where
  "short_item d = \<lparr>label = short_label (display_name d), place_lat = row_lat d, place_lon = row_lon d\<rparr>"

fun unique_loop :: "place list \<Rightarrow> place list \<Rightarrow> string set \<Rightarrow> place list" where
  "unique_loop [] unique seen = unique"
| "unique_loop (it # items) unique seen =
     (if label it \<notin> seen
      then unique_loop items (unique @ [it]) (insert (label it) seen)
      else unique_loop items unique seen)"

definition nominatimSuggest_dedup_finish ::
  "cache \<Rightarrow> string \<Rightarrow> geo_response \<Rightarrow> place list \<times> cache" where
  "nominatimSuggest_dedup_finish geoCache key resp =
     (case resp of
        Rejected \<Rightarrow> ([], geoCache)
      | Http ok body \<Rightarrow>
          if \<not> ok then ([], geoCache)
          else (case body of
                  None \<Rightarrow> ([], geoCache)
                | Some data \<Rightarrow>
                    (let items = map short_item data;
                         unique = unique_loop items [] {}
                     in (unique, geoCache(key \<mapsto> unique)))))"

definition nominatimSuggest_dedup ::
  "cache \<Rightarrow> string \<Rightarrow> string \<Rightarrow> geo_response \<Rightarrow> place list \<times> cache \<times> request list" where
  "nominatimSuggest_dedup geoCache q which resp =
     (case nominatimSuggest_start geoCache q which of
        Return items \<Rightarrow> (items, geoCache, [])
      | Fetch key req \<Rightarrow>
          (case nominatimSuggest_dedup_finish geoCache key resp of
             (items, geoCache') \<Rightarrow> (items, geoCache', [req])))"

subsection \<open>\<^verbatim>\<open>geocodeFirst\<close>\<close>

text \<open>
  \<^verbatim>\<open>
  function geocodeFirst(label, which) {
    const key = which + '|' + label.trim();
    if (geoCache.has(key)) return Promise.resolve(geoCache.get(key)[0]);
    return nominatimSuggest(label, which).then(arr => arr[0] || null);
  }
  \<close>
  The result is \<open>None\<close> for \<^verbatim>\<open>undefined\<close> and \<^verbatim>\<open>null\<close>.
\<close>

definition first_item :: "place list \<Rightarrow> place option" where
  "first_item arr = (case arr of [] \<Rightarrow> None | x # _ \<Rightarrow> Some x)"

datatype geocode_start = Resolved "place option" | Pending string request

definition geocodeFirst_start :: "cache \<Rightarrow> string \<Rightarrow> string \<Rightarrow> geocode_start" where
  "geocodeFirst_start geoCache lbl which =
     (let key = cache_key which lbl
      in (case geoCache key of
            Some items \<Rightarrow> Resolved (first_item items)
          | None \<Rightarrow>
              (case nominatimSuggest_start geoCache lbl which of
                 Return arr \<Rightarrow> Resolved (first_item arr)
               | Fetch key' req \<Rightarrow> Pending key' req)))"

definition geocodeFirst_finish :: "cache \<Rightarrow> string \<Rightarrow> geo_response \<Rightarrow> place option \<times> cache" where
  "geocodeFirst_finish geoCache key resp =
     (case nominatimSuggest_finish geoCache key resp of
        (arr, geoCache') \<Rightarrow> (first_item arr, geoCache'))"

subsection \<open>The page\<close>

text \<open>
  What the script of version 6 keeps and shows: the cache, the charger points and whether the
  heat-map plugin \<^verbatim>\<open>L.heatLayer\<close> is there, the two input fields with their suggestion
  lists, the message line \<^verbatim>\<open>route-msg\<close>, the lines of \<^verbatim>\<open>routeLayer\<close>, the markers of
  \<^verbatim>\<open>nearLayer\<close>, the heat layer \<^verbatim>\<open>nearHeat\<close> (\<open>None\<close> for \<^verbatim>\<open>null\<close>) and the line the map
  was last fitted to. \<open>sent\<close> lists the requests made so far; \<open>tasks\<close> holds the calls that
  wait for an answer, each at its \<^verbatim>\<open>await\<close> (\<open>None\<close> once the call has ended).
\<close>

datatype task =
    AwaitSuggest string string
  | AwaitOrigin string string
  | AwaitDest "place option" string
  | AwaitRoute

record page =
  geoCache :: cache
  EV_POINTS :: "ev_point list"
  heatLayer :: bool
  originEl :: string
  destEl :: string
  originList :: "string list"
  destList :: "string list"
  msg :: string
  routeLayer :: "coord list list"
  nearLayer :: "marker list"
  nearHeat :: "(real \<times> real) list option"
  fitted :: "coord list option"
  sent :: "request list"
  tasks :: "task option list"

subsection \<open>Suggestions while typing\<close>

text \<open>
  \<^verbatim>\<open>
  function populateDatalist(id, items) {
    const dl = document.getElementById(id);
    if (!dl) return;
    dl.innerHTML = '';
    items.forEach(it => { const opt=document.createElement('option'); opt.value=it.label; dl.appendChild(opt); });
  }
  originEl.addEventListener('input', debounce(async (ev)=>{ populateDatalist('origin-list', await nominatimSuggest(ev.target.value,'o')); },250));
  destEl.addEventListener('input', debounce(async (ev)=>{ populateDatalist('dest-list', await nominatimSuggest(ev.target.value,'d')); },250));
  \<close>
  \<open>suggest_fired\<close> is the handler that the debounce timer of a field starts; it gives the
  page and the task that waits, if one does.
\<close>

definition populateDatalist :: "string \<Rightarrow> place list \<Rightarrow> page \<Rightarrow> page" where
  "populateDatalist ident items s =
     (if ident = ''origin-list'' then s\<lparr>originList := map label items\<rparr>
      else if ident = ''dest-list'' then s\<lparr>destList := map label items\<rparr>
      else s)"

datatype field = OriginField | DestField

definition which_of :: "field \<Rightarrow> string" where
  "which_of f = (case f of OriginField \<Rightarrow> ''o'' | DestField \<Rightarrow> ''d'')"

definition list_of_field :: "field \<Rightarrow> string" where
  "list_of_field f = (case f of OriginField \<Rightarrow> ''origin-list'' | DestField \<Rightarrow> ''dest-list'')"

definition value_of_field :: "field \<Rightarrow> page \<Rightarrow> string" where
  "value_of_field f s = (case f of OriginField \<Rightarrow> originEl s | DestField \<Rightarrow> destEl s)"

definition suggest_fired :: "field \<Rightarrow> page \<Rightarrow> page \<times> task option" where
  "suggest_fired f s =
     (case nominatimSuggest_start (geoCache s) (value_of_field f s) (which_of f) of
        Return items \<Rightarrow> (populateDatalist (list_of_field f) items s, None)
      | Fetch key req \<Rightarrow>
          (s\<lparr>sent := sent s @ [req]\<rparr>, Some (AwaitSuggest (list_of_field f) key)))"

definition suggest_arrived :: "string \<Rightarrow> string \<Rightarrow> geo_response \<Rightarrow> page \<Rightarrow> page" where
  "suggest_arrived ident key resp s =
     (case nominatimSuggest_finish (geoCache s) key resp of
        (items, geoCache') \<Rightarrow> populateDatalist ident items (s\<lparr>geoCache := geoCache'\<rparr>))"

subsection \<open>\<^verbatim>\<open>doRoute\<close>\<close>

text \<open>
  \<^verbatim>\<open>totalKm.toFixed(0)\<close>: the nearest whole number, a half rounded away from zero, in
  decimal digits (numbers below \<open>10\<^sup>2\<^sup>1\<close>).
\<close>

fun digits :: "nat \<Rightarrow> string" where
  "digits n =
     (if n < 10 then [''0123456789'' ! n] else digits (n div 10) @ [''0123456789'' ! (n mod 10)])"

declare digits.simps [simp del]

definition toFixed0 :: "real \<Rightarrow> string" where
  "toFixed0 x =
     (if x < 0 then ''-'' @ digits (nat \<lfloor>- x + 1 / 2\<rfloor>) else digits (nat \<lfloor>x + 1 / 2\<rfloor>))"

text \<open>
  \<^verbatim>\<open>
  async function doRoute() {
    const msg = document.getElementById('route-msg');
    if (msg) msg.textContent = 'Finding route...';
    const originTxt = originEl.value.trim();
    const destTxt = destEl.value.trim();
    if (!originTxt || !destTxt) { if (msg) msg.textContent = 'Please enter both origin and destination.'; return; }

    const o = await geocodeFirst(originTxt, 'o');
    const d = await geocodeFirst(destTxt, 'd');
    if (!o || !d) { if (msg) msg.textContent = 'Could not find one or both places. Try being more specific.'; return; }

    const url = `https://router.project-osrm.org/route/v1/driving/${o.lon},${o.lat};${d.lon},${d.lat}?overview=full&geometries=geojson`;
    let geo = null;
    let totalKm = 0;
    try {
      const resp = await fetch(url);
      if (!resp.ok) throw new Error('HTTP ' + resp.status);
      const data = await resp.json();
      if (!data.routes || !data.routes.length) throw new Error('No route');
      const route = data.routes[0];
      geo = route.geometry;
      totalKm = route.distance ? (route.distance / 1000.0) : 0;
    } catch(e) {
      console.warn('OSRM error', e);
      if (msg) msg.textContent = 'Route unavailable. Try a nearby suburb or major city.';
      return;
    }

    routeLayer.clearLayers();
    nearLayer.clearLayers();
    if (nearHeat) { try { nearHeat.remove(); } catch(e){} nearHeat = null; }

    const line = L.geoJSON(geo, { style: { ... } });
    line.addTo(routeLayer);
    mapRef.fitBounds(line.getBounds(), { padding: [24,24] });

    const coords = geo.coordinates;
    const nearPts = [];
    EV_POINTS.forEach(pt => { ... });

    if (nearPts.length && L.heatLayer) {
      nearHeat = L.heatLayer(nearPts, { ... }).addTo(mapRef);
    }

    if (msg) msg.textContent = `Found route (${totalKm.toFixed(0)} km). Chargers within 5.0 km highlighted.`;
  }
  \<close>
  The call stops at each \<^verbatim>\<open>await\<close> whose promise is not settled yet, that is at each
  request to the network, and goes on when the answer arrives. The definitions follow the
  text from the end to the start: \<open>draw_route\<close> is the part after the \<^verbatim>\<open>try\<close>,
  \<open>fetch_route\<close> the \<^verbatim>\<open>try\<close> block after its \<^verbatim>\<open>fetch\<close>, \<open>doRoute_places\<close> the part from
  \<^verbatim>\<open>if (!o || !d)\<close> to the \<^verbatim>\<open>fetch\<close>, \<open>doRoute_dest\<close> the second \<^verbatim>\<open>geocodeFirst\<close>, and
  \<open>doRoute\<close> the start of the call.
\<close>

definition found_msg :: "real \<Rightarrow> string" where
  "found_msg totalKm =
     ''Found route ('' @ toFixed0 totalKm @ '' km). Chargers within 5.0 km highlighted.''"

text \<open>
  With \<^verbatim>\<open>geo\<close> undefined the layers are cleared, \<^verbatim>\<open>L.geoJSON\<close> has no line to draw, and
  \<^verbatim>\<open>geo.coordinates\<close> at the latest throws a \<^verbatim>\<open>TypeError\<close> that nothing catches: the
  call ends there.
\<close>

definition draw_route :: "page \<Rightarrow> coord list option \<Rightarrow> real \<Rightarrow> page" where
  "draw_route s geo totalKm =
     (let s1 = s\<lparr>routeLayer := [], nearLayer := [], nearHeat := None\<rparr>
      in (case geo of
            None \<Rightarrow> s1
          | Some coords \<Rightarrow>
              (let s2 = s1\<lparr>routeLayer := [coords], fitted := Some coords\<rparr>;
                   near = near_chargers PROX_KM coords (EV_POINTS s2);
                   s3 = s2\<lparr>nearLayer := snd near\<rparr>;
                   s4 = (if fst near \<noteq> [] \<and> heatLayer s3
                         then s3\<lparr>nearHeat := Some (fst near)\<rparr> else s3)
               in s4\<lparr>msg := found_msg totalKm\<rparr>)))"

text \<open>The \<^verbatim>\<open>try\<close> block: \<open>None\<close> when it throws, else \<^verbatim>\<open>geo\<close> and \<^verbatim>\<open>totalKm\<close>.\<close>

definition fetch_route :: "route_response \<Rightarrow> (coord list option \<times> real) option" where
  "fetch_route resp =
     (case resp of
        Rejected \<Rightarrow> None
      | Http ok body \<Rightarrow>
          if \<not> ok then None
          else (case body of
                  None \<Rightarrow> None
                | Some data \<Rightarrow>
                    (case routes data of
                       None \<Rightarrow> None
                     | Some [] \<Rightarrow> None
                     | Some (route # _) \<Rightarrow>
                         Some (geometry route,
                               (case distance route of
                                  None \<Rightarrow> 0
                                | Some m \<Rightarrow> if m \<noteq> 0 then m / 1000 else 0)))))"

definition route_arrived :: "route_response \<Rightarrow> page \<Rightarrow> page" where
  "route_arrived resp s =
     (case fetch_route resp of
        None \<Rightarrow> s\<lparr>msg := ''Route unavailable. Try a nearby suburb or major city.''\<rparr>
      | Some (geo, totalKm) \<Rightarrow> draw_route s geo totalKm)"

definition doRoute_places :: "place option \<Rightarrow> place option \<Rightarrow> page \<Rightarrow> page \<times> task option" where
  "doRoute_places o_place d_place s =
     (case (o_place, d_place) of
        (Some p, Some q) \<Rightarrow>
          (s\<lparr>sent := sent s @ [OsrmRoute (place_lon p) (place_lat p) (place_lon q) (place_lat q)]\<rparr>,
           Some AwaitRoute)
      | _ \<Rightarrow>
          (s\<lparr>msg := ''Could not find one or both places. Try being more specific.''\<rparr>, None))"

definition doRoute_dest :: "place option \<Rightarrow> string \<Rightarrow> page \<Rightarrow> page \<times> task option" where
  "doRoute_dest o_place destTxt s =
     (case geocodeFirst_start (geoCache s) destTxt ''d'' of
        Resolved d_place \<Rightarrow> doRoute_places o_place d_place s
      | Pending key req \<Rightarrow> (s\<lparr>sent := sent s @ [req]\<rparr>, Some (AwaitDest o_place key)))"

definition doRoute :: "page \<Rightarrow> page \<times> task option" where
  "doRoute s =
     (let s1 = s\<lparr>msg := ''Finding route...''\<rparr>;
          originTxt = trim (originEl s1);
          destTxt = trim (destEl s1)
      in if originTxt = [] \<or> destTxt = []
         then (s1\<lparr>msg := ''Please enter both origin and destination.''\<rparr>, None)
         else (case geocodeFirst_start (geoCache s1) originTxt ''o'' of
                 Resolved o_place \<Rightarrow> doRoute_dest o_place destTxt s1
               | Pending key req \<Rightarrow>
                   (s1\<lparr>sent := sent s1 @ [req]\<rparr>, Some (AwaitOrigin key destTxt))))"

text \<open>
  A waiting call goes on with the answer to its request; an answer of the other kind than
  the one it waits for does not occur, and leaves everything as it is.
\<close>

definition resume :: "task \<Rightarrow> response \<Rightarrow> page \<Rightarrow> page \<times> task option" where
  "resume t r s =
     (case (t, r) of
        (AwaitSuggest ident key, Geo resp) \<Rightarrow> (suggest_arrived ident key resp s, None)
      | (AwaitOrigin key destTxt, Geo resp) \<Rightarrow>
          (case geocodeFirst_finish (geoCache s) key resp of
             (o_place, geoCache') \<Rightarrow> doRoute_dest o_place destTxt (s\<lparr>geoCache := geoCache'\<rparr>))
      | (AwaitDest o_place key, Geo resp) \<Rightarrow>
          (case geocodeFirst_finish (geoCache s) key resp of
             (d_place, geoCache') \<Rightarrow> doRoute_places o_place d_place (s\<lparr>geoCache := geoCache'\<rparr>))
      | (AwaitRoute, Route resp) \<Rightarrow> (route_arrived resp s, None)
      | _ \<Rightarrow> (s, Some t))"

subsection \<open>The clear button\<close>

text \<open>
  \<^verbatim>\<open>
  document.getElementById('btn-clear').addEventListener('click', function() {
    routeLayer.clearLayers();
    nearLayer.clearLayers();
    if (nearHeat) { try { nearHeat.remove(); } catch(e){} nearHeat = null; }
    const msg = document.getElementById('route-msg');
    if (msg) msg.textContent = '';
  });
  \<close>
\<close>

definition clear_click :: "page \<Rightarrow> page" where
  "clear_click s = s\<lparr>routeLayer := [], nearLayer := [], nearHeat := None, msg := []\<rparr>"

subsection \<open>Events\<close>

text \<open>
  The page handles one event at a time, each to its end or to its next \<^verbatim>\<open>await\<close>: the user
  types into a field, the debounce timer of a field fires, a button is clicked, or the
  answer to the request of the waiting call number \<open>n\<close> arrives.
\<close>

datatype event =
    TypeOrigin string
  | TypeDest string
  | TimerFires field
  | FindClick
  | ClearClick
  | Arrives nat response

definition spawn :: "page \<times> task option \<Rightarrow> page" where
  "spawn r = (case r of (s, None) \<Rightarrow> s | (s, Some t) \<Rightarrow> s\<lparr>tasks := tasks s @ [Some t]\<rparr>)"

definition settle :: "nat \<Rightarrow> page \<times> task option \<Rightarrow> page" where
  "settle n r = (case r of (s, t) \<Rightarrow> s\<lparr>tasks := (tasks s)[n := t]\<rparr>)"

fun step :: "page \<Rightarrow> event \<Rightarrow> page" where
  "step s (TypeOrigin v) = s\<lparr>originEl := v\<rparr>"
| "step s (TypeDest v) = s\<lparr>destEl := v\<rparr>"
| "step s (TimerFires f) = spawn (suggest_fired f s)"
| "step s FindClick = spawn (doRoute s)"
| "step s ClearClick = clear_click s"
| "step s (Arrives n r) =
     (if n < length (tasks s)
      then (case tasks s ! n of
              None \<Rightarrow> s
            | Some t \<Rightarrow> settle n (resume t r s))
      else s)"

definition run :: "page \<Rightarrow> event list \<Rightarrow> page" where
  "run s evs = foldl step s evs"

subsection \<open>\<^verbatim>\<open>findRoute\<close> of version 7\<close>

text \<open>
  The page of version 7 has its own route planner: two input fields, a button and the
  message box \<^verbatim>\<open>routeMsg\<close>; it keeps no cache and no layers of its own, and adds each line
  to the map.
  \<^verbatim>\<open>
  async function findRoute() {
    const origin = document.getElementById('origin').value;
    const destination = document.getElementById('destination').value;
    const msgBox = document.getElementById('routeMsg');
    msgBox.innerHTML = "Finding route...";
    try {
      const geo = async (q) => {
        const r = await fetch(`https://nominatim.openstreetmap.org/search?format=json&q=${encodeURIComponent(q + ", Australia")}`);
        const j = await r.json();
        if (j.length === 0) throw "not found";
        return [parseFloat(j[0].lat), parseFloat(j[0].lon), j[0].display_name];
      };
      const [olat, olon, oname] = await geo(origin);
      const [dlat, dlon, dname] = await geo(destination);

      const routeURL = `https://router.project-osrm.org/route/v1/driving/${olon},${olat};${dlon},${dlat}?overview=full&geometries=geojson`;
      const routeResp = await fetch(routeURL);
      const routeData = await routeResp.json();
      const coords = routeData.routes[0].geometry.coordinates.map(c => [c[1], c[0]]);
      const distance_km = routeData.routes[0].distance / 1000.0;
      const routeLine = L.polyline(coords, {color:'blue', weight:3.5}).addTo(window.map);
      window.map.fitBounds(routeLine.getBounds());
      msgBox.innerHTML = `Found route.<br>Chargers within 5.0 km highlighted.<br>Total route length: ${distance_km.toFixed(0)} km`;

      // detect longest gap without chargers
      let maxGap = 0, lastIdx = 0;
      for (...) { ... }
      if (maxGap > CHARGER_GAP_KM) {
        msgBox.innerHTML += `<br><span style='color:red;'>... Warning: this route includes a stretch of ~${maxGap.toFixed(0)} km with limited chargers.</span>`;
      }
    } catch (err) {
      msgBox.innerHTML = "Error finding route.";
    }
  }
  \<close>
  The content of the message box is one of four: empty, "Finding route...", the report of
  the route found, with the text of its length and, if the warning is appended, the text
  of the gap, and "Error finding route.".
\<close>

datatype message7 =
    NoMessage
  | FindingRoute
  | FoundRoute string "string option"
  | ErrorFindingRoute

datatype task7 =
    AwaitGeoOrigin string
  | AwaitGeoDest real real
  | AwaitRoute7

record page7 =
  originInput :: string
  destinationInput :: string
  routeMsg :: message7
  mapLines :: "(real \<times> real) list list"
  fitted7 :: "(real \<times> real) list option"
  sent7 :: "request list"
  tasks7 :: "task7 option list"

text \<open>The inner function \<^verbatim>\<open>geo\<close> after its \<^verbatim>\<open>fetch\<close>: \<open>None\<close> when it throws.\<close>

definition geo7 :: "geo_response \<Rightarrow> (real \<times> real \<times> string) option" where
  "geo7 resp =
     (case resp of
        Rejected \<Rightarrow> None
      | Http ok body \<Rightarrow>
          (case body of
             None \<Rightarrow> None
           | Some [] \<Rightarrow> None
           | Some (j0 # _) \<Rightarrow> Some (row_lat j0, row_lon j0, display_name j0)))"

text \<open>The start of the call, to the \<^verbatim>\<open>fetch\<close> of the first \<^verbatim>\<open>geo\<close>.\<close>

definition findRoute :: "page7 \<Rightarrow> page7 \<times> task7 option" where
  "findRoute s =
     (let origin = originInput s;
          destination = destinationInput s;
          s1 = s\<lparr>routeMsg := FindingRoute\<rparr>
      in (s1\<lparr>sent7 := sent7 s1 @ [NominatimSearch (origin @ '', Australia'')]\<rparr>,
          Some (AwaitGeoOrigin destination)))"

text \<open>
  \<^verbatim>\<open>distance_km.toFixed(0)\<close>; without a distance the quotient is \<^verbatim>\<open>NaN\<close>.
\<close>

definition length_text :: "osrm_route \<Rightarrow> string" where
  "length_text r = (case distance r of None \<Rightarrow> ''NaN'' | Some m \<Rightarrow> toFixed0 (m / 1000))"

text \<open>The part after the \<^verbatim>\<open>fetch\<close> of the route.\<close>

definition route7_arrived :: "route_response \<Rightarrow> page7 \<Rightarrow> page7" where
  "route7_arrived resp s =
     (case resp of
        Rejected \<Rightarrow> s\<lparr>routeMsg := ErrorFindingRoute\<rparr>
      | Http ok body \<Rightarrow>
          (case body of
             None \<Rightarrow> s\<lparr>routeMsg := ErrorFindingRoute\<rparr>
           | Some routeData \<Rightarrow>
               (case routes routeData of
                  None \<Rightarrow> s\<lparr>routeMsg := ErrorFindingRoute\<rparr>
                | Some [] \<Rightarrow> s\<lparr>routeMsg := ErrorFindingRoute\<rparr>
                | Some (r # _) \<Rightarrow>
                    (case geometry r of
                       None \<Rightarrow> s\<lparr>routeMsg := ErrorFindingRoute\<rparr>
                     | Some line \<Rightarrow>
                         (let coords = map (\<lambda>c. (snd c, fst c)) line;
                              s1 = s\<lparr>mapLines := mapLines s @ [coords], fitted7 := Some coords,
                                     routeMsg := FoundRoute (length_text r) None\<rparr>;
                              gap = longestGap CHARGER_GAP_KM line
                          in if snd gap
                             then s1\<lparr>routeMsg := FoundRoute (length_text r) (Some (toFixed0 (fst gap)))\<rparr>
                             else s1)))))"

definition resume7 :: "task7 \<Rightarrow> response \<Rightarrow> page7 \<Rightarrow> page7 \<times> task7 option" where
  "resume7 t r s =
     (case (t, r) of
        (AwaitGeoOrigin destination, Geo resp) \<Rightarrow>
          (case geo7 resp of
             None \<Rightarrow> (s\<lparr>routeMsg := ErrorFindingRoute\<rparr>, None)
           | Some (olat, olon, oname) \<Rightarrow>
               (s\<lparr>sent7 := sent7 s @ [NominatimSearch (destination @ '', Australia'')]\<rparr>,
                Some (AwaitGeoDest olat olon)))
      | (AwaitGeoDest olat olon, Geo resp) \<Rightarrow>
          (case geo7 resp of
             None \<Rightarrow> (s\<lparr>routeMsg := ErrorFindingRoute\<rparr>, None)
           | Some (dlat, dlon, dname) \<Rightarrow>
               (s\<lparr>sent7 := sent7 s @ [OsrmRoute olon olat dlon dlat]\<rparr>, Some AwaitRoute7))
      | (AwaitRoute7, Route resp) \<Rightarrow> (route7_arrived resp s, None)
      | _ \<Rightarrow> (s, Some t))"

datatype event7 =
    SetOrigin string
  | SetDestination string
  | PlotClick
  | Arrives7 nat response

fun step7 :: "page7 \<Rightarrow> event7 \<Rightarrow> page7" where
  "step7 s (SetOrigin v) = s\<lparr>originInput := v\<rparr>"
| "step7 s (SetDestination v) = s\<lparr>destinationInput := v\<rparr>"
| "step7 s PlotClick =
     (case findRoute s of
        (s', None) \<Rightarrow> s'
      | (s', Some t) \<Rightarrow> s'\<lparr>tasks7 := tasks7 s' @ [Some t]\<rparr>)"
| "step7 s (Arrives7 n r) =
     (if n < length (tasks7 s)
      then (case tasks7 s ! n of
              None \<Rightarrow> s
            | Some t \<Rightarrow> (case resume7 t r s of (s', t') \<Rightarrow> s'\<lparr>tasks7 := (tasks7 s')[n := t']\<rparr>))
      else s)"

subsection \<open>Notions used in the statements below\<close>

text \<open>The number \<^verbatim>\<open>a\<close> of \<^verbatim>\<open>haversineKm\<close>, of which two square roots are taken.\<close>

definition hav_a :: "real \<Rightarrow> real \<Rightarrow> real \<Rightarrow> real \<Rightarrow> real" where
  "hav_a lat1 lon1 lat2 lon2 =
     (sin ((lat2 - lat1) * pi / 180 / 2))\<^sup>2
       + cos (lat1 * pi / 180) * cos (lat2 * pi / 180) * (sin ((lon2 - lon1) * pi / 180 / 2))\<^sup>2"

text \<open>
  That number for Sydney (-33.8688, 151.2093) and Melbourne (-37.8136, 144.9631), with the
  signs of the angles removed.
\<close>

definition syd_mel_a :: real where
  "syd_mel_a = (sin ((4931 / 2500) * pi / 180))\<^sup>2 + cos ((21168 / 625) * pi / 180) * cos ((47267 / 1250) * pi / 180) * (sin ((31231 / 10000) * pi / 180))\<^sup>2"

text \<open>The distance of a charger to a vertex, and the test the spec calls "near".\<close>

definition vertex_km :: "ev_point \<Rightarrow> coord \<Rightarrow> real" where
  "vertex_km pt p = haversineKm (pt_lat pt) (pt_lon pt) (snd p) (fst p)"

definition near_route :: "real \<Rightarrow> coord list \<Rightarrow> ev_point \<Rightarrow> bool" where
  "near_route thr coords pt = (coords \<noteq> [] \<and> Min (vertex_km pt ` set coords) \<le> thr)"

definition marker_of :: "ev_point \<Rightarrow> marker" where
  "marker_of pt =
     \<lparr>mk_lat = pt_lat pt, mk_lon = pt_lon pt,
      mk_color = (if pt_fast pt then ''#2563eb'' else ''#22c55e'')\<rparr>"

text \<open>
  The planar distances between the consecutive vertices of a line, the first pair first:
  of \<open>[lat, lon]\<close> pairs, and of the GeoJSON positions of a route.
\<close>

definition pair_km :: "(real \<times> real) list \<Rightarrow> real list" where
  "pair_km coords = map (\<lambda>(p, q). segment_km p q) (zip coords (tl coords))"

definition consecutive_km :: "coord list \<Rightarrow> real list" where
  "consecutive_km line = pair_km (map (\<lambda>c. (snd c, fst c)) line)"

text \<open>One turn of the loop of the gap warning.\<close>

definition gap_update :: "real \<Rightarrow> real \<Rightarrow> real \<Rightarrow> real" where
  "gap_update gap m d = (if gap < d then max m d else m)"

text \<open>A fetch that gives no usable answer: rejected, not \<^verbatim>\<open>ok\<close>, or a body that cannot be read.\<close>

definition fetch_failed :: "'a fetched \<Rightarrow> bool" where
  "fetch_failed resp = (case resp of Rejected \<Rightarrow> True | Http ok body \<Rightarrow> \<not> ok \<or> body = None)"

text \<open>
  The items whose label no earlier item of the sequence has, in the order of the sequence:
  of each label the first occurrence.
\<close>

definition keep_first :: "place list \<Rightarrow> place list" where
  "keep_first xs =
     map (\<lambda>i. xs ! i)
       (filter (\<lambda>i. label (xs ! i) \<notin> set (map label (take i xs))) [0..<length xs])"

text \<open>
  An answer to the route request from which no route can be taken: the fetch is rejected,
  the status is not \<^verbatim>\<open>ok\<close>, the body cannot be read, or its \<^verbatim>\<open>routes\<close> are absent or empty.
\<close>

definition no_route_answer :: "route_response \<Rightarrow> bool" where
  "no_route_answer resp =
     (case resp of
        Rejected \<Rightarrow> True
      | Http ok body \<Rightarrow>
          \<not> ok \<or> (case body of None \<Rightarrow> True | Some d \<Rightarrow> routes d = None \<or> routes d = Some []))"

text \<open>An answer with status \<^verbatim>\<open>ok\<close> whose first route has no geometry of the expected shape.\<close>

definition geometry_unreadable :: "route_response \<Rightarrow> bool" where
  "geometry_unreadable resp =
     (case resp of
        Http True (Some d) \<Rightarrow>
          (case routes d of Some (r # rs) \<Rightarrow> geometry r = None | _ \<Rightarrow> False)
      | _ \<Rightarrow> False)"

text \<open>The message of the spec's \<^verbatim>\<open>RouteUnavailable\<close>.\<close>

definition unavailable_msg :: string where
  "unavailable_msg = ''Route unavailable. Try a nearby suburb or major city.''"

text \<open>\<^verbatim>\<open>totalKm\<close> of a route: \<^verbatim>\<open>route.distance / 1000.0\<close>, and 0 without a distance.\<close>

definition route_km :: "osrm_route \<Rightarrow> real" where
  "route_km r = (case distance r of None \<Rightarrow> 0 | Some m \<Rightarrow> m / 1000)"

text \<open>The line of the first route of an answer, if the answer has one.\<close>

definition first_line :: "route_response \<Rightarrow> coord list option" where
  "first_line resp =
     (case resp of
        Rejected \<Rightarrow> None
      | Http ok body \<Rightarrow>
          (case body of
             None \<Rightarrow> None
           | Some d \<Rightarrow> (case routes d of None \<Rightarrow> None | Some [] \<Rightarrow> None | Some (r # rs) \<Rightarrow> geometry r)))"

subsection \<open>Concrete inputs\<close>

text \<open>A fast public charger at a given position.\<close>

definition charger_at :: "real \<Rightarrow> real \<Rightarrow> ev_point" where
  "charger_at la lo =
     \<lparr>pt_lat = la, pt_lon = lo, pt_status = ''operational'', pt_usage = ''public'',
      pt_fast = True, pt_title = ''A'', pt_operator = ''B'', pt_town = ''C'', pt_state = ''D'',
      pt_power_kw = None\<rparr>"

text \<open>Three places, as GeoJSON positions.\<close>

definition melbourne :: coord where
  "melbourne = (14497 / 100, - (3781 / 100))"

definition perth :: coord where
  "perth = (11587 / 100, - (3197 / 100))"

definition sydney :: coord where
  "sydney = (15121 / 100, - (3387 / 100))"

text \<open>Answers of Nominatim: a row for each place, and four rows whose names are A, B, A, C.\<close>

definition melbourne_rows :: "nominatim_row list" where
  "melbourne_rows =
     [\<lparr>display_name = ''Melbourne, City of Melbourne, Victoria, 3000, Australia'',
       row_lat = snd melbourne, row_lon = fst melbourne\<rparr>]"

definition perth_rows :: "nominatim_row list" where
  "perth_rows =
     [\<lparr>display_name = ''Perth, City of Perth, Western Australia, 6000, Australia'',
       row_lat = snd perth, row_lon = fst perth\<rparr>]"

definition sydney_rows :: "nominatim_row list" where
  "sydney_rows =
     [\<lparr>display_name = ''Sydney, Council of the City of Sydney, New South Wales, 2000, Australia'',
       row_lat = snd sydney, row_lon = fst sydney\<rparr>]"

definition abac_rows :: "nominatim_row list" where
  "abac_rows =
     [\<lparr>display_name = ''A'', row_lat = 1, row_lon = 10\<rparr>,
      \<lparr>display_name = ''B'', row_lat = 2, row_lon = 20\<rparr>,
      \<lparr>display_name = ''A'', row_lat = 3, row_lon = 30\<rparr>,
      \<lparr>display_name = ''C'', row_lat = 4, row_lon = 40\<rparr>]"

text \<open>Answers of OSRM: a route to Perth, a route to Sydney, and a route without geometry.\<close>

definition line_perth :: "coord list" where
  "line_perth = [melbourne, perth]"

definition line_sydney :: "coord list" where
  "line_sydney = [melbourne, sydney]"

definition route_perth :: route_response where
  "route_perth =
     Http True (Some \<lparr>routes = Some [\<lparr>geometry = Some line_perth, distance = Some 3418207\<rparr>]\<rparr>)"

definition route_sydney :: route_response where
  "route_sydney =
     Http True (Some \<lparr>routes = Some [\<lparr>geometry = Some line_sydney, distance = Some 877601\<rparr>]\<rparr>)"

definition route_shapeless :: route_response where
  "route_shapeless =
     Http True (Some \<lparr>routes = Some [\<lparr>geometry = None, distance = Some 877601\<rparr>]\<rparr>)"

text \<open>The page when it has loaded, with one charger, in Melbourne.\<close>

definition page0 :: page where
  "page0 =
     \<lparr>geoCache = Map.empty, EV_POINTS = [charger_at (snd melbourne) (fst melbourne)],
      heatLayer = True, originEl = [], destEl = [], originList = [], destList = [],
      msg = [], routeLayer = [], nearLayer = [], nearHeat = None, fitted = None,
      sent = [], tasks = []\<rparr>"

text \<open>
  Two searches. The first, from Melbourne to Perth, waits for its route; then the
  destination is changed to Sydney and the second search is started; the route to Sydney
  arrives, and after it the route to Perth.
\<close>

definition two_searches :: "event list" where
  "two_searches =
     [TypeOrigin ''Melbourne'', TypeDest ''Perth'', FindClick,
      Arrives 0 (Geo (Http True (Some melbourne_rows))),
      Arrives 0 (Geo (Http True (Some perth_rows))),
      TypeDest ''Sydney'', FindClick,
      Arrives 1 (Geo (Http True (Some sydney_rows))),
      Arrives 1 (Route route_sydney),
      Arrives 0 (Route route_perth)]"

text \<open>One search, from Melbourne to Sydney, answered by a route without geometry.\<close>

definition shapeless_search :: "event list" where
  "shapeless_search =
     [TypeOrigin ''Melbourne'', TypeDest ''Sydney'', FindClick,
      Arrives 0 (Geo (Http True (Some melbourne_rows))),
      Arrives 0 (Geo (Http True (Some sydney_rows))),
      Arrives 0 (Route route_shapeless)]"

text \<open>The page of the two searches when both wait for their routes.\<close>

definition searching :: page where
  "searching = run page0 (take 8 two_searches)"

text \<open>The page of the two searches when the route to Sydney is drawn.\<close>

definition drawn :: page where
  "drawn = run page0 (take 9 two_searches)"

text \<open>A route of two vertices three degrees of latitude apart, and OSRM's answer with it.\<close>

definition line_north :: "coord list" where
  "line_north = [(0, 0), (0, 3)]"

definition route_north :: route_response where
  "route_north =
     Http True (Some \<lparr>routes = Some [\<lparr>geometry = Some line_north, distance = Some 333000\<rparr>]\<rparr>)"

text \<open>The page of version 7 when it has loaded, with the texts it starts with.\<close>

definition page7_0 :: page7 where
  "page7_0 =
     \<lparr>originInput = ''101 Collins Street, Melbourne, Victoria'',
      destinationInput = ''152 St Georges Terrace, Perth, Western Australia'',
      routeMsg = NoMessage, mapLines = [], fitted7 = None, sent7 = [], tasks7 = []\<rparr>"

text \<open>That page with a line on the map and a search that waits for its route.\<close>

definition page7_waiting :: page7 where
  "page7_waiting =
     page7_0\<lparr>routeMsg := FindingRoute, mapLines := [map (\<lambda>c. (snd c, fst c)) line_sydney],
       tasks7 := [Some AwaitRoute7]\<rparr>"

section \<open>Properties\<close>

subsection \<open>Chargers near a route\<close>

lemma minDistKm_loop_Some:
  "minDistKm_loop la lo ps (Some b) =
     Some (Min (insert b ((\<lambda>p. haversineKm la lo (snd p) (fst p)) ` set ps)))"
proof (induction ps arbitrary: b)
  case Nil
  show ?case by simp
next
  case (Cons p ps)
  let ?h = "\<lambda>p. haversineKm la lo (snd p) (fst p)"
  have fin: "finite (?h ` set ps)" by simp
  show ?case
  proof (cases "?h p < b")
    case True
    then have "Min (insert b (insert (?h p) (?h ` set ps))) = Min (insert (?h p) (?h ` set ps))"
      using fin by (simp add: min_def insert_commute)
    with True Cons.IH [of "?h p"] show ?thesis
      by (simp add: below_best_def Let_def)
  next
    case False
    then have "Min (insert b (insert (?h p) (?h ` set ps))) = Min (insert b (?h ` set ps))"
      using fin by (cases "set ps = {}") (auto simp: min_def insert_commute)
    with False Cons.IH [of b] show ?thesis
      by (simp add: below_best_def Let_def)
  qed
qed

text \<open>\<^verbatim>\<open>minDistKm\<close> gives the least distance to a vertex, and \<^verbatim>\<open>Infinity\<close> for no vertex.\<close>

lemma minDistKm_eq:
  "minDistKm la lo coords =
     (if coords = [] then None
      else Some (Min ((\<lambda>p. haversineKm la lo (snd p) (fst p)) ` set coords)))"
  by (cases coords) (simp_all add: minDistKm_def minDistKm_loop_Some below_best_def)

lemma within_km_near_route:
  "within_km (minDistKm (pt_lat pt) (pt_lon pt) coords) thr = near_route thr coords pt"
proof -
  have "vertex_km pt = (\<lambda>p. haversineKm (pt_lat pt) (pt_lon pt) (snd p) (fst p))"
    by (rule ext) (simp add: vertex_km_def)
  then show ?thesis
    by (simp add: minDistKm_eq within_km_def near_route_def)
qed

lemma near_fold:
  "foldl (near_step thr coords) acc points =
     (fst acc @ map (\<lambda>pt. (pt_lat pt, pt_lon pt)) (filter (near_route thr coords) points),
      snd acc @ map marker_of (filter (near_route thr coords) points))"
  by (induction points arbitrary: acc)
    (simp_all add: near_step_def within_km_near_route marker_of_def Let_def)

lemma haversineKm_same: "haversineKm la lo la lo = 0"
  by (simp add: haversineKm_def atan2_def)

text \<open>From the pole to the equator: a quarter of a great circle.\<close>

lemma haversineKm_quarter: "haversineKm 90 0 0 0 = 6371 * pi / 2"
proof -
  have s: "sin (pi / 4) ^ 2 = (1/2 :: real)"
    by (simp add: sin_45 power2_eq_square)
  have "(sin (- (90 * pi / 180) / 2))\<^sup>2 = (sin (pi / 4))\<^sup>2"
    by (simp add: power2_eq_square)
  then have a: "(sin ((0 - 90) * pi / 180 / 2))\<^sup>2 = (1/2::real)" using s by simp
  have c: "cos (90 * pi / 180) = (0::real)" by simp
  show ?thesis
    unfolding haversineKm_def Let_def a c by (simp add: atan2_def arctan_one)
qed

lemma charger_at_sel [simp]:
  "pt_lat (charger_at la lo) = la" "pt_lon (charger_at la lo) = lo"
  by (simp_all add: charger_at_def)

text \<open>
  Claim C3. For all charger points, every polyline and every threshold, the points that
  \<^verbatim>\<open>doRoute\<close> collects in \<^verbatim>\<open>nearPts\<close>, and the markers it adds to \<^verbatim>\<open>nearLayer\<close>, are those
  of the points whose least haversine distance to a vertex of the polyline is at most the
  threshold, in the order of the input: a point at the threshold is in, a point beyond it
  is out.
\<close>

theorem near_chargers_filter:
  "near_chargers thr coords points =
     (map (\<lambda>pt. (pt_lat pt, pt_lon pt)) (filter (near_route thr coords) points),
      map marker_of (filter (near_route thr coords) points))"
  by (simp add: near_chargers_def near_fold)

text \<open>
  A charger at the pole and one on the only vertex, at the equator: with the threshold at
  the quarter circle that separates them both are near (the tie is in), with the
  threshold 0 only the second is, and no charger is near a line without vertices.
\<close>

theorem near_chargers_filter_witness:
  "near_chargers (6371 * pi / 2) [(0, 0)] [charger_at 90 0, charger_at 0 0]
     = ([(90, 0), (0, 0)], [marker_of (charger_at 90 0), marker_of (charger_at 0 0)])
   \<and> near_chargers 0 [(0, 0)] [charger_at 90 0, charger_at 0 0]
     = ([(0, 0)], [marker_of (charger_at 0 0)])
   \<and> near_chargers 5 [] [charger_at 90 0, charger_at 0 0] = ([], [])"
proof -
  have q: "vertex_km (charger_at 90 0) (0, 0) = 6371 * pi / 2"
    by (simp add: vertex_km_def haversineKm_quarter)
  have z: "vertex_km (charger_at 0 0) (0, 0) = 0"
    by (simp add: vertex_km_def haversineKm_same)
  have n1: "near_route (6371 * pi / 2) [(0, 0)] (charger_at 90 0)"
    and n2: "near_route (6371 * pi / 2) [(0, 0)] (charger_at 0 0)"
    and n3: "\<not> near_route 0 [(0, 0)] (charger_at 90 0)"
    and n4: "near_route 0 [(0, 0)] (charger_at 0 0)"
    and n5: "\<not> near_route 5 [] (charger_at 90 0)"
    and n6: "\<not> near_route 5 [] (charger_at 0 0)"
    by (simp_all add: near_route_def q z not_le)
  show ?thesis
    using near_chargers_filter [of "6371 * pi / 2" "[(0, 0)]" "[charger_at 90 0, charger_at 0 0]"]
      near_chargers_filter [of 0 "[(0, 0)]" "[charger_at 90 0, charger_at 0 0]"]
      near_chargers_filter [of 5 "[]" "[charger_at 90 0, charger_at 0 0]"]
    by (simp add: n1 n2 n3 n4 n5 n6)
qed

subsection \<open>The charger-gap warning\<close>

lemma length_pair_km [simp]: "length (pair_km coords) = length coords - 1"
  by (simp add: pair_km_def)

lemma pair_km_nth:
  "Suc k < length coords \<Longrightarrow> pair_km coords ! k = segment_km (coords ! k) (coords ! Suc k)"
  by (simp add: pair_km_def nth_tl)

lemma gap_loop_foldl:
  "0 < i \<Longrightarrow> gap_loop gap coords i (i - 1) m = foldl (gap_update gap) m (drop (i - 1) (pair_km coords))"
proof (induction "length coords - i" arbitrary: i m)
  case 0
  then show ?case by (subst gap_loop.simps) simp
next
  case (Suc n)
  then have lt: "i < length coords" by simp
  obtain k where k: "i = Suc k" using Suc.prems by (cases i) auto
  have d: "drop k (pair_km coords) = pair_km coords ! k # drop (Suc k) (pair_km coords)"
    using lt k by (simp add: Cons_nth_drop_Suc)
  have "n = length coords - (i + 1)" using Suc.hyps(2) by simp
  from Suc.hyps(1) [OF this, of "gap_update gap m (segment_km (coords ! k) (coords ! i))"]
  show ?case
    using lt k d by (subst gap_loop.simps) (simp add: Let_def pair_km_nth gap_update_def)
qed

lemma segment_km_nonneg: "0 \<le> segment_km p q"
  by (simp add: segment_km_def split: prod.splits)

lemma foldl_gap_update:
  "foldl (gap_update gap) m ds =
     (if \<exists>d\<in>set ds. gap < d then max m (Max {d \<in> set ds. gap < d}) else m)"
proof (induction ds arbitrary: m)
  case Nil
  show ?case by simp
next
  case (Cons d ds)
  let ?S = "{x \<in> set ds. gap < x}"
  have fin: "finite ?S" by simp
  show ?case
  proof (cases "gap < d")
    case True
    then have S: "{x \<in> set (d # ds). gap < x} = insert d ?S" by auto
    from True have u: "gap_update gap m d = max m d" by (simp add: gap_update_def)
    show ?thesis
    proof (cases "?S = {}")
      case True
      then have "\<not> (\<exists>x\<in>set ds. gap < x)" by auto
      with \<open>gap < d\<close> S True show ?thesis by (simp add: Cons.IH u)
    next
      case False
      then have "\<exists>x\<in>set ds. gap < x" by auto
      with \<open>gap < d\<close> S False fin show ?thesis
        by (simp add: Cons.IH u max.assoc)
    qed
  next
    case False
    then have S: "{x \<in> set (d # ds). gap < x} = ?S" by auto
    from False have u: "gap_update gap m d = m" by (simp add: gap_update_def)
    from False S show ?thesis by (simp add: Cons.IH u)
  qed
qed

lemma Max_filter_above:
  assumes "finite A" "x \<in> A" "gap < x"
  shows "Max {d \<in> A. gap < d} = Max A"
proof (rule antisym)
  have ne: "{d \<in> A. gap < d} \<noteq> {}" using assms by auto
  show "Max {d \<in> A. gap < d} \<le> Max A"
    using assms ne by (intro Max_mono) auto
  have "gap < Max A" using assms by (meson Max_ge less_le_trans)
  then have "Max A \<in> {d \<in> A. gap < d}" using assms by (auto intro: Max_in)
  then show "Max A \<le> Max {d \<in> A. gap < d}" using assms by (intro Max_ge) auto
qed

lemma gap_result:
  assumes "ds \<noteq> []" "\<forall>d\<in>set ds. 0 \<le> d"
  shows "foldl (gap_update gap) 0 ds = (if gap < Max (set ds) then Max (set ds) else 0)"
proof (cases "\<exists>d\<in>set ds. gap < d")
  case True
  then obtain x where x: "x \<in> set ds" "gap < x" by auto
  then have M: "Max {d \<in> set ds. gap < d} = Max (set ds)"
    by (intro Max_filter_above) auto
  have "gap < Max (set ds)" using x by (meson List.finite_set Max_ge less_le_trans)
  moreover have "0 \<le> Max (set ds)" using assms x by (meson List.finite_set Max_ge order_trans)
  ultimately show ?thesis using True M by (simp add: foldl_gap_update)
next
  case False
  then have "\<not> gap < Max (set ds)" using assms(1) by (auto simp: not_less)
  with False show ?thesis by (simp add: foldl_gap_update)
qed


lemma pair_km_nonneg: "\<forall>d\<in>set (pair_km coords). 0 \<le> d"
  by (auto simp: pair_km_def segment_km_nonneg)

lemma longestGap_foldl:
  "longestGap gap line =
     (foldl (gap_update gap) 0 (consecutive_km line),
      gap < foldl (gap_update gap) 0 (consecutive_km line))"
  using gap_loop_foldl [of 1 gap "map (\<lambda>c. (snd c, fst c)) line" 0]
  by (simp add: longestGap_def consecutive_km_def Let_def)

text \<open>
  Claim C2, as the code has it. For a route of at least two vertices, \<^verbatim>\<open>maxGap\<close> after
  the loop is the greatest planar distance between consecutive vertices when that distance
  exceeds the threshold, and 0 when it does not: the loop takes up only distances above
  \<^verbatim>\<open>CHARGER_GAP_KM\<close>. The warning is shown exactly when the greatest distance exceeds
  the threshold.
\<close>

theorem longestGap_guarded:
  assumes "2 \<le> length line"
  shows "longestGap gap line =
     (if gap < Max (set (consecutive_km line)) then Max (set (consecutive_km line)) else 0,
      gap < Max (set (consecutive_km line)))"
proof -
  let ?ds = "consecutive_km line"
  have ne: "?ds \<noteq> []"
    using assms by (simp add: consecutive_km_def flip: length_greater_0_conv)
  have nn: "\<forall>d\<in>set ?ds. 0 \<le> d"
    by (simp add: consecutive_km_def pair_km_nonneg)
  have M: "0 \<le> Max (set ?ds)"
    using ne nn by (meson List.finite_set Max_ge hd_in_set order_trans)
  have "foldl (gap_update gap) 0 ?ds = (if gap < Max (set ?ds) then Max (set ?ds) else 0)"
    using ne nn by (rule gap_result)
  then show ?thesis
    using M by (simp add: longestGap_foldl)
qed

lemma one_degree_north: "consecutive_km [(0, 0), (0, 1)] = [111]"
  by (simp add: consecutive_km_def pair_km_def segment_km_def)

lemma three_degrees_north: "consecutive_km [(0, 0), (0, 3)] = [333]"
  by (simp add: consecutive_km_def pair_km_def segment_km_def)

text \<open>
  Two vertices one degree of latitude apart are 111 km apart, below the threshold of 300:
  \<^verbatim>\<open>maxGap\<close> stays 0. Three degrees apart they are 333 km apart, and the warning is shown.
\<close>

theorem longestGap_guarded_witness:
  "longestGap CHARGER_GAP_KM [(0, 0), (0, 1)] = (0, False)
   \<and> longestGap CHARGER_GAP_KM [(0, 0), (0, 3)] = (333, True)"
  using longestGap_guarded [of "[(0, 0), (0, 1)]" CHARGER_GAP_KM]
    longestGap_guarded [of "[(0, 0), (0, 3)]" CHARGER_GAP_KM]
  by (simp add: one_degree_north three_degrees_north CHARGER_GAP_KM_def)

text \<open>
  The claim as the spec states it, that \<^verbatim>\<open>maxGap\<close> is the greatest distance between
  consecutive vertices, fails on the route of two vertices one degree apart.
\<close>

theorem longestGap_not_maximum:
  "fst (longestGap CHARGER_GAP_KM [(0, 0), (0, 1)]) \<noteq> Max (set (consecutive_km [(0, 0), (0, 1)]))"
  by (simp add: longestGap_foldl one_degree_north gap_update_def CHARGER_GAP_KM_def)

subsection \<open>The suggestion cache\<close>

lemma nominatimSuggest_short:
  "length q < 3 \<Longrightarrow> nominatimSuggest c q which resp = ([], c, [])"
  by (simp add: nominatimSuggest_def nominatimSuggest_start_def)

lemma nominatimSuggest_hit:
  "3 \<le> length q \<Longrightarrow> c (cache_key which q) = Some items \<Longrightarrow>
     nominatimSuggest c q which resp = (items, c, [])"
  by (simp add: nominatimSuggest_def nominatimSuggest_start_def)

lemma nominatimSuggest_miss:
  "3 \<le> length q \<Longrightarrow> c (cache_key which q) = None \<Longrightarrow>
     nominatimSuggest c q which resp =
       (fst (nominatimSuggest_finish c (cache_key which q) resp),
        snd (nominatimSuggest_finish c (cache_key which q) resp),
        [NominatimSearch q])"
  by (simp add: nominatimSuggest_def nominatimSuggest_start_def split: prod.splits)

lemma finish_failed:
  "fetch_failed resp \<Longrightarrow> nominatimSuggest_finish c key resp = ([], c)"
  by (auto simp: fetch_failed_def nominatimSuggest_finish_def split: fetched.splits option.splits)

lemma finish_ok:
  "nominatimSuggest_finish c key (Http True (Some data)) =
     (map row_item data, c(key \<mapsto> map row_item data))"
  by (simp add: nominatimSuggest_finish_def Let_def)

lemma finish_cases:
  "nominatimSuggest_finish c key resp = ([], c) \<or>
   (\<exists>items. nominatimSuggest_finish c key resp = (items, c(key \<mapsto> items)))"
  by (auto simp: nominatimSuggest_finish_def Let_def split: fetched.splits option.splits)

lemma finish_dom: "dom c \<subseteq> dom (snd (nominatimSuggest_finish c key resp))"
  using finish_cases [of c key resp] by auto

lemma nominatimSuggest_populated:
  assumes long: "3 \<le> length q"
    and "nominatimSuggest c q which resp = (items, c1, reqs)"
    and "c1 (cache_key which q) \<noteq> None"
  shows "c1 (cache_key which q) = Some items"
proof -
  show ?thesis
  proof (cases "c (cache_key which q)")
    case (Some xs)
    with long assms show ?thesis by (simp add: nominatimSuggest_hit)
  next
    case None
    with long assms finish_cases [of c "cache_key which q" resp] show ?thesis
      by (auto simp: nominatimSuggest_miss)
  qed
qed

lemma nominatimSuggest_map_le:
  assumes "nominatimSuggest c q which resp = (items, c1, reqs)"
  shows "c \<subseteq>\<^sub>m c1"
proof (cases "length q < 3")
  case True
  with assms show ?thesis by (simp add: nominatimSuggest_short)
next
  case False
  then have long: "3 \<le> length q" by simp
  show ?thesis
  proof (cases "c (cache_key which q)")
    case (Some xs)
    with long assms show ?thesis by (simp add: nominatimSuggest_hit)
  next
    case None
    with long assms finish_cases [of c "cache_key which q" resp] show ?thesis
      by (auto simp: nominatimSuggest_miss map_le_def)
  qed
qed

lemma suggest_series_map_le:
  "suggest_series c calls = (c2, reqs) \<Longrightarrow> c \<subseteq>\<^sub>m c2"
proof (induction calls arbitrary: c c2 reqs)
  case Nil
  then show ?case by simp
next
  case (Cons call calls)
  obtain q which resp where call: "call = (q, which, resp)" by (cases call) auto
  obtain items c1 r1 where one: "nominatimSuggest c q which resp = (items, c1, r1)"
    by (cases "nominatimSuggest c q which resp") auto
  obtain c' r' where rest: "suggest_series c1 calls = (c', r')"
    by (cases "suggest_series c1 calls") auto
  from Cons.prems call one rest have "c' = c2" by simp
  with Cons.IH [OF rest] nominatimSuggest_map_le [OF one] show ?case
    by (blast intro: map_le_trans)
qed

subsection \<open>Labels without duplicates\<close>

lemma unique_loop_index:
  "unique_loop xs u seen =
     u @ map (\<lambda>i. xs ! i)
           (filter (\<lambda>i. label (xs ! i) \<notin> seen \<union> set (map label (take i xs))) [0..<length xs])"
proof (induction xs arbitrary: u seen)
  case Nil
  show ?case by simp
next
  case (Cons x xs)
  let ?Q = "\<lambda>ys s i. label (ys ! i) \<notin> s \<union> set (map label (take i ys))"
  have upt: "[0..<length (x # xs)] = 0 # map Suc [0..<length xs]"
    by (simp add: upt_conv_Cons map_Suc_upt del: upt_Suc)
  have shift: "map (\<lambda>i. (x # xs) ! i) (filter (?Q (x # xs) seen) (map Suc l))
      = map (\<lambda>i. xs ! i) (filter (?Q xs (insert (label x) seen)) l)" for l
    by (induction l) auto
  have split: "filter (?Q (x # xs) seen) [0..<length (x # xs)]
      = (if label x \<in> seen then [] else [0]) @ filter (?Q (x # xs) seen) (map Suc [0..<length xs])"
    unfolding upt by simp
  have rhs: "map (\<lambda>i. (x # xs) ! i) (filter (?Q (x # xs) seen) [0..<length (x # xs)])
      = (if label x \<in> seen then [] else [x])
          @ map (\<lambda>i. xs ! i) (filter (?Q xs (insert (label x) seen)) [0..<length xs])"
    by (simp only: split map_append shift, simp)
  show ?case
  proof (cases "label x \<in> seen")
    case True
    then have same: "insert (label x) seen = seen" by auto
    have "unique_loop (x # xs) u seen = unique_loop xs u seen"
      using True by simp
    also have "\<dots> = u @ map (\<lambda>i. xs ! i) (filter (?Q xs seen) [0..<length xs])"
      by (rule Cons.IH)
    also have "\<dots> = u @ map (\<lambda>i. (x # xs) ! i) (filter (?Q (x # xs) seen) [0..<length (x # xs)])"
      using True by (simp only: rhs same if_True append_Nil)
    finally show ?thesis .
  next
    case False
    have "unique_loop (x # xs) u seen = unique_loop xs (u @ [x]) (insert (label x) seen)"
      using False by simp
    also have "\<dots> = (u @ [x])
        @ map (\<lambda>i. xs ! i) (filter (?Q xs (insert (label x) seen)) [0..<length xs])"
      by (rule Cons.IH)
    also have "\<dots> = u @ map (\<lambda>i. (x # xs) ! i) (filter (?Q (x # xs) seen) [0..<length (x # xs)])"
      using False by (simp only: rhs if_False append_assoc)
    finally show ?thesis .
  qed
qed

lemma unique_loop_keep_first: "unique_loop xs [] {} = keep_first xs"
  by (simp add: unique_loop_index keep_first_def)

lemma keep_first_labels_distinct: "distinct (map label (keep_first xs))"
proof -
  let ?P = "\<lambda>i. label (xs ! i) \<notin> set (map label (take i xs))"
  let ?is = "filter ?P [0..<length xs]"
  have "inj_on (\<lambda>i. label (xs ! i)) (set ?is)"
  proof (rule inj_onI)
    fix i j assume i: "i \<in> set ?is" and j: "j \<in> set ?is"
      and eq: "label (xs ! i) = label (xs ! j)"
    show "i = j"
    proof (rule ccontr)
      assume ne: "i \<noteq> j"
      { fix a b assume ab: "a < b" "b < length xs" "label (xs ! a) = label (xs ! b)" "?P b"
        then have "xs ! a \<in> set (take b xs)"
          by (metis in_set_conv_nth length_take min.absorb2 less_imp_le nth_take)
        then have "label (xs ! a) \<in> set (map label (take b xs))" by simp
        with ab have False by simp }
      note clash = this
      from ne consider "i < j" | "j < i" by linarith
      then show False
      proof cases
        case 1 with clash [of i j] i j eq show False by auto
      next
        case 2 with clash [of j i] i j eq show False by auto
      qed
    qed
  qed
  moreover have "distinct ?is" by simp
  ultimately have "distinct (map (\<lambda>i. label (xs ! i)) ?is)"
    by (simp add: distinct_map)
  then show ?thesis by (simp add: keep_first_def comp_def)
qed

lemma keep_first_set: "label ` set (keep_first xs) = label ` set xs"
proof (rule equalityI)
  show "label ` set (keep_first xs) \<subseteq> label ` set xs"
    by (auto simp: keep_first_def)
  show "label ` set xs \<subseteq> label ` set (keep_first xs)"
  proof
    fix l assume "l \<in> label ` set xs"
    then have ex: "\<exists>i. i < length xs \<and> label (xs ! i) = l"
      by (auto simp: in_set_conv_nth)
    define k where "k = (LEAST i. i < length xs \<and> label (xs ! i) = l)"
    have k: "k < length xs \<and> label (xs ! k) = l"
      unfolding k_def using ex by (rule LeastI_ex)
    have least: "\<And>j. j < k \<Longrightarrow> label (xs ! j) \<noteq> l"
    proof -
      fix j assume "j < k"
      then have "\<not> (j < length xs \<and> label (xs ! j) = l)"
        unfolding k_def by (rule not_less_Least)
      with \<open>j < k\<close> k show "label (xs ! j) \<noteq> l" by simp
    qed
    have "l \<notin> set (map label (take k xs))"
    proof
      assume "l \<in> set (map label (take k xs))"
      then obtain j where "j < length (take k xs)" "label (take k xs ! j) = l"
        by (auto simp: in_set_conv_nth)
      with least [of j] show False by simp
    qed
    with k have "k \<in> set (filter (\<lambda>i. label (xs ! i) \<notin> set (map label (take i xs))) [0..<length xs])"
      by simp
    then have "xs ! k \<in> set (keep_first xs)"
      unfolding keep_first_def by (metis (no_types, lifting) image_eqI set_map)
    with k show "l \<in> label ` set (keep_first xs)" by force
  qed
qed

subsection \<open>The cache of the page\<close>

lemma geoCache_populateDatalist [simp]: "geoCache (populateDatalist ident xs s) = geoCache s"
  by (simp add: populateDatalist_def)

lemma geoCache_suggest_fired [simp]: "geoCache (fst (suggest_fired f s)) = geoCache s"
  by (simp add: suggest_fired_def split: suggest_start.splits)

lemma geoCache_suggest_arrived:
  "geoCache (suggest_arrived ident key resp s) = snd (nominatimSuggest_finish (geoCache s) key resp)"
  by (simp add: suggest_arrived_def split: prod.splits)

lemma geoCache_draw_route [simp]: "geoCache (draw_route s geo km) = geoCache s"
  by (simp add: draw_route_def Let_def split: option.splits)

lemma geoCache_route_arrived [simp]: "geoCache (route_arrived resp s) = geoCache s"
  by (simp add: route_arrived_def split: option.splits prod.splits)

lemma geoCache_doRoute_places [simp]: "geoCache (fst (doRoute_places a b s)) = geoCache s"
  by (simp add: doRoute_places_def split: option.splits)

lemma geoCache_doRoute_dest [simp]: "geoCache (fst (doRoute_dest a txt s)) = geoCache s"
  by (simp add: doRoute_dest_def split: geocode_start.splits)

lemma geoCache_doRoute [simp]: "geoCache (fst (doRoute s)) = geoCache s"
  by (simp add: doRoute_def Let_def split: geocode_start.splits)

lemma geoCache_clear_click [simp]: "geoCache (clear_click s) = geoCache s"
  by (simp add: clear_click_def)

lemma geoCache_spawn [simp]: "geoCache (spawn r) = geoCache (fst r)"
  by (simp add: spawn_def split: prod.splits option.splits)

lemma geoCache_settle [simp]: "geoCache (settle n r) = geoCache (fst r)"
  by (simp add: settle_def split: prod.splits)

lemma geoCache_resume:
  "geoCache (fst (resume t r s)) =
     (case (t, r) of
        (AwaitSuggest ident key, Geo resp) \<Rightarrow> snd (nominatimSuggest_finish (geoCache s) key resp)
      | (AwaitOrigin key txt, Geo resp) \<Rightarrow> snd (nominatimSuggest_finish (geoCache s) key resp)
      | (AwaitDest a key, Geo resp) \<Rightarrow> snd (nominatimSuggest_finish (geoCache s) key resp)
      | _ \<Rightarrow> geoCache s)"
  by (cases t; cases r)
    (simp_all add: resume_def geoCache_suggest_arrived geocodeFirst_finish_def split: prod.splits)

lemma resume_keeps_keys: "dom (geoCache s) \<subseteq> dom (geoCache (fst (resume t r s)))"
  by (cases t; cases r) (simp_all add: geoCache_resume finish_dom)

lemma step_keeps_keys: "dom (geoCache s) \<subseteq> dom (geoCache (step s e))"
proof (cases e)
  case (Arrives n r)
  show ?thesis
  proof (cases "n < length (tasks s)")
    case True
    show ?thesis
    proof (cases "tasks s ! n")
      case None
      with True Arrives show ?thesis by simp
    next
      case (Some t)
      with True Arrives resume_keeps_keys [of s t r] show ?thesis by simp
    qed
  next
    case False
    with Arrives show ?thesis by simp
  qed
qed simp_all

lemma run_keeps_keys: "dom (geoCache s) \<subseteq> dom (geoCache (run s evs))"
proof (induction evs arbitrary: s)
  case Nil
  show ?case by (simp add: run_def)
next
  case (Cons e evs)
  have "dom (geoCache s) \<subseteq> dom (geoCache (step s e))" by (rule step_keeps_keys)
  also have "\<dots> \<subseteq> dom (geoCache (run (step s e) evs))" by (rule Cons.IH)
  finally show ?case by (simp add: run_def)
qed

lemma key_Perth: "cache_key ''d'' ''Perth'' = ''d|Perth''"
  by (simp add: cache_key_def trim_def is_space_def)

lemma key_Melbourne: "cache_key ''o'' ''Melbourne'' = ''o|Melbourne''"
  by (simp add: cache_key_def trim_def is_space_def)

text \<open>
  Claim C4. A query of fewer than 3 characters returns the empty sequence and makes no
  request. For a text of at least 3 characters: once a lookup for (direction, text) has
  ended with the key in the cache, a later lookup for the same pair, after any other
  lookups, returns the same sequence and makes no request, whatever the network would
  answer. Lookups made one after the other keep every entry as it is, and no event of the
  page removes a key from the cache.
\<close>

theorem suggestion_cache_reuse:
  "(length q < 3 \<longrightarrow> nominatimSuggest c q which resp = ([], c, []))
   \<and> (3 \<le> length q \<and> nominatimSuggest c q which resp = (found, c1, reqs)
        \<and> c1 (cache_key which q) \<noteq> None \<and> suggest_series c1 calls = (c2, reqs2)
      \<longrightarrow> nominatimSuggest c2 q which resp2 = (found, c2, []))
   \<and> (suggest_series c calls = (c2, reqs2) \<longrightarrow> c \<subseteq>\<^sub>m c2)
   \<and> dom (geoCache s) \<subseteq> dom (geoCache (run s evs))"
proof (intro conjI impI)
  assume "length q < 3"
  then show "nominatimSuggest c q which resp = ([], c, [])"
    by (rule nominatimSuggest_short)
next
  assume a: "3 \<le> length q \<and> nominatimSuggest c q which resp = (found, c1, reqs)
        \<and> c1 (cache_key which q) \<noteq> None \<and> suggest_series c1 calls = (c2, reqs2)"
  then have "c1 (cache_key which q) = Some found"
    using nominatimSuggest_populated [of q c which resp found c1 reqs] by simp
  moreover have "c1 \<subseteq>\<^sub>m c2"
    using a suggest_series_map_le [of c1 calls c2 reqs2] by simp
  ultimately have "c2 (cache_key which q) = Some found"
    by (auto simp: map_le_def dom_def)
  with a show "nominatimSuggest c2 q which resp2 = (found, c2, [])"
    by (simp add: nominatimSuggest_hit)
next
  assume "suggest_series c calls = (c2, reqs2)"
  then show "c \<subseteq>\<^sub>m c2" by (rule suggest_series_map_le)
next
  show "dom (geoCache s) \<subseteq> dom (geoCache (run s evs))" by (rule run_keeps_keys)
qed

text \<open>
  A lookup for Perth fills the cache; a failed lookup for Melbourne comes between; the
  second lookup for Perth is answered from the cache although the network is down.
\<close>

theorem suggestion_cache_reuse_witness:
  "nominatimSuggest Map.empty ''Pe'' ''d'' (Http True (Some perth_rows)) = ([], Map.empty, [])
   \<and> nominatimSuggest Map.empty ''Perth'' ''d'' (Http True (Some perth_rows))
       = (map row_item perth_rows, [''d|Perth'' \<mapsto> map row_item perth_rows],
          [NominatimSearch ''Perth''])
   \<and> suggest_series [''d|Perth'' \<mapsto> map row_item perth_rows] [(''Melbourne'', ''o'', Rejected)]
       = ([''d|Perth'' \<mapsto> map row_item perth_rows], [NominatimSearch ''Melbourne''])
   \<and> nominatimSuggest [''d|Perth'' \<mapsto> map row_item perth_rows] ''Perth'' ''d'' Rejected
       = (map row_item perth_rows, [''d|Perth'' \<mapsto> map row_item perth_rows], [])"
proof -
  let ?found = "map row_item perth_rows"
  let ?c1 = "[''d|Perth'' \<mapsto> ?found]"
  have first: "nominatimSuggest Map.empty ''Perth'' ''d'' (Http True (Some perth_rows))
       = (?found, ?c1, [NominatimSearch ''Perth''])"
    by (simp add: nominatimSuggest_miss key_Perth finish_ok)
  have between: "suggest_series ?c1 [(''Melbourne'', ''o'', Rejected)]
       = (?c1, [NominatimSearch ''Melbourne''])"
    by (simp add: nominatimSuggest_miss key_Melbourne finish_failed fetch_failed_def)
  have pop: "?c1 (cache_key ''d'' ''Perth'') \<noteq> None"
    by (simp add: key_Perth)
  from suggestion_cache_reuse [of "''Pe''" Map.empty "''d''" "Http True (Some perth_rows)"]
  have short: "nominatimSuggest Map.empty ''Pe'' ''d'' (Http True (Some perth_rows)) = ([], Map.empty, [])"
    by simp
  from suggestion_cache_reuse [of "''Perth''" Map.empty "''d''" "Http True (Some perth_rows)"
      ?found ?c1 "[NominatimSearch ''Perth'']" "[(''Melbourne'', ''o'', Rejected)]" ?c1
      "[NominatimSearch ''Melbourne'']" Rejected] first between pop
  have again: "nominatimSuggest ?c1 ''Perth'' ''d'' Rejected = (?found, ?c1, [])"
    by simp
  from short first between again show ?thesis by simp
qed

text \<open>
  Claim C9. When the fetch of a lookup fails (the transport fails, the status is not
  \<^verbatim>\<open>ok\<close>, or the body cannot be read) the call returns the empty sequence and leaves the
  cache as it was, with no entry for the key; so the next lookup for the same pair asks the
  network again, and returns and stores what it then answers.
\<close>

theorem failed_suggestion_not_cached:
  "3 \<le> length q \<and> c (cache_key which q) = None \<and> fetch_failed resp \<longrightarrow>
     nominatimSuggest c q which resp = ([], c, [NominatimSearch q])
     \<and> nominatimSuggest c q which (Http True (Some data))
         = (map row_item data, c(cache_key which q \<mapsto> map row_item data), [NominatimSearch q])"
  by (simp add: nominatimSuggest_miss finish_failed finish_ok)

text \<open>A rejected fetch and a status that is not \<^verbatim>\<open>ok\<close>, then the retry that succeeds.\<close>

theorem failed_suggestion_not_cached_witness:
  "nominatimSuggest Map.empty ''Perth'' ''d'' Rejected = ([], Map.empty, [NominatimSearch ''Perth''])
   \<and> nominatimSuggest Map.empty ''Perth'' ''d'' (Http False None)
       = ([], Map.empty, [NominatimSearch ''Perth''])
   \<and> nominatimSuggest Map.empty ''Perth'' ''d'' (Http True (Some perth_rows))
       = (map row_item perth_rows, [''d|Perth'' \<mapsto> map row_item perth_rows],
          [NominatimSearch ''Perth''])"
  using failed_suggestion_not_cached [of "''Perth''" Map.empty "''d''" Rejected perth_rows]
    failed_suggestion_not_cached [of "''Perth''" Map.empty "''d''" "Http False None" perth_rows]
  by (simp add: key_Perth fetch_failed_def)

subsection \<open>Suggestions without duplicates\<close>

lemma dedup_finish_ok:
  "nominatimSuggest_dedup_finish c key (Http True (Some data)) =
     (keep_first (map short_item data), c(key \<mapsto> keep_first (map short_item data)))"
  by (simp add: nominatimSuggest_dedup_finish_def Let_def unique_loop_keep_first)

text \<open>
  Claim C5. For every answer of the geocoder, the later \<^verbatim>\<open>nominatimSuggest\<close> returns of
  each label its first item, in the order of the answer, and this sequence is what it has
  put into the cache when it returns: no label occurs twice, and no label is lost.
\<close>

theorem suggestions_deduplicated:
  "(3 \<le> length q \<and> c (cache_key which q) = None \<longrightarrow>
      nominatimSuggest_dedup c q which (Http True (Some data)) =
        (keep_first (map short_item data),
         c(cache_key which q \<mapsto> keep_first (map short_item data)),
         [NominatimSearch q]))
   \<and> distinct (map label (keep_first (map short_item data)))
   \<and> label ` set (keep_first (map short_item data)) = label ` set (map short_item data)"
  by (simp add: nominatimSuggest_dedup_def nominatimSuggest_start_def dedup_finish_ok
      keep_first_labels_distinct keep_first_set)

lemma short_label_letter:
  "short_label ''A'' = ''A''" "short_label ''B'' = ''B''" "short_label ''C'' = ''C''"
  by (simp_all add: short_label_def trim_def is_space_def mentions_Australia_def
      four_digits_def lower_def)

lemma key_abc: "cache_key ''o'' ''abc'' = ''o|abc''"
  by (simp add: cache_key_def trim_def is_space_def)

lemma keep_first_abac:
  "keep_first (map short_item abac_rows) =
     [\<lparr>label = ''A'', place_lat = 1, place_lon = 10\<rparr>,
      \<lparr>label = ''B'', place_lat = 2, place_lon = 20\<rparr>,
      \<lparr>label = ''C'', place_lat = 4, place_lon = 40\<rparr>]"
  by (simp add: keep_first_def abac_rows_def short_item_def short_label_letter upt_rec)

text \<open>Labels A, B, A, C give A, B, C, with the position of the first A.\<close>

theorem suggestions_deduplicated_witness:
  "map label (map short_item abac_rows) = [''A'', ''B'', ''A'', ''C'']
   \<and> nominatimSuggest_dedup Map.empty ''abc'' ''o'' (Http True (Some abac_rows)) =
       ([\<lparr>label = ''A'', place_lat = 1, place_lon = 10\<rparr>,
         \<lparr>label = ''B'', place_lat = 2, place_lon = 20\<rparr>,
         \<lparr>label = ''C'', place_lat = 4, place_lon = 40\<rparr>],
        [''o|abc'' \<mapsto>
          [\<lparr>label = ''A'', place_lat = 1, place_lon = 10\<rparr>,
           \<lparr>label = ''B'', place_lat = 2, place_lon = 20\<rparr>,
           \<lparr>label = ''C'', place_lat = 4, place_lon = 40\<rparr>]],
        [NominatimSearch ''abc''])"
proof -
  have labels: "map label (map short_item abac_rows) = [''A'', ''B'', ''A'', ''C'']"
    by (simp add: abac_rows_def short_item_def short_label_letter)
  from suggestions_deduplicated [of "''abc''" Map.empty "''o''" abac_rows]
  have "nominatimSuggest_dedup Map.empty ''abc'' ''o'' (Http True (Some abac_rows)) =
        (keep_first (map short_item abac_rows),
         [''o|abc'' \<mapsto> keep_first (map short_item abac_rows)],
         [NominatimSearch ''abc''])"
    by (simp add: key_abc)
  with labels show ?thesis by (simp add: keep_first_abac)
qed

subsection \<open>The route planner of version 7\<close>

text \<open>
  \<^verbatim>\<open>findRoute\<close> of version 7 does not look at its texts: a click sends the search for the
  origin text, followed by ", Australia", also when a text is empty.
\<close>

lemma findRoute_no_input_check:
  "step7 s PlotClick =
     s\<lparr>routeMsg := FindingRoute,
       sent7 := sent7 s @ [NominatimSearch (originInput s @ '', Australia'')],
       tasks7 := tasks7 s @ [Some (AwaitGeoOrigin (destinationInput s))]\<rparr>"
  by (simp add: findRoute_def Let_def)

lemma findRoute_empty_texts:
  "step7 (page7_0\<lparr>originInput := [], destinationInput := []\<rparr>) PlotClick =
     page7_0\<lparr>originInput := [], destinationInput := [], routeMsg := FindingRoute,
       sent7 := [NominatimSearch '', Australia''],
       tasks7 := [Some (AwaitGeoOrigin [])]\<rparr>"
  using findRoute_no_input_check [of "page7_0\<lparr>originInput := [], destinationInput := []\<rparr>"]
  by (simp add: page7_0_def)

lemma route7_error:
  "first_line resp = None \<Longrightarrow> route7_arrived resp s = s\<lparr>routeMsg := ErrorFindingRoute\<rparr>"
  by (simp add: first_line_def route7_arrived_def split: fetched.splits option.splits list.splits)

lemma route7_drawn:
  "first_line resp = Some line \<Longrightarrow>
     mapLines (route7_arrived resp s) = mapLines s @ [map (\<lambda>c. (snd c, fst c)) line]
     \<and> fitted7 (route7_arrived resp s) = Some (map (\<lambda>c. (snd c, fst c)) line)
     \<and> routeMsg (route7_arrived resp s) \<noteq> ErrorFindingRoute"
  by (auto simp: first_line_def route7_arrived_def Let_def
      split: fetched.splits option.splits list.splits)

lemma step7_route_answer:
  "n < length (tasks7 s) \<Longrightarrow> tasks7 s ! n = Some AwaitRoute7 \<Longrightarrow>
     step7 s (Arrives7 n (Route resp)) = (route7_arrived resp s)\<lparr>tasks7 := (tasks7 s)[n := None]\<rparr>"
  by (simp add: resume7_def route7_arrived_def Let_def
      split: fetched.splits option.splits list.splits)

text \<open>
  \<^verbatim>\<open>findRoute\<close> of version 7 has no request token either: the line of every answer that
  arrives for a waiting call is added to the map, on top of the lines already there.
\<close>

lemma findRoute_draws_every_answer:
  "n < length (tasks7 s) \<and> tasks7 s ! n = Some AwaitRoute7 \<and> first_line resp = Some line \<longrightarrow>
     mapLines (step7 s (Arrives7 n (Route resp))) = mapLines s @ [map (\<lambda>c. (snd c, fst c)) line]
     \<and> routeMsg (step7 s (Arrives7 n (Route resp))) \<noteq> ErrorFindingRoute"
  by (simp add: step7_route_answer route7_drawn del: step7.simps)

lemma first_line_north: "first_line route_north = Some line_north"
  by (simp add: first_line_def route_north_def)

lemma findRoute_second_line:
  "mapLines (step7 page7_waiting (Arrives7 0 (Route route_north)))
     = [map (\<lambda>c. (snd c, fst c)) line_sydney, [(0, 0), (3, 0)]]
   \<and> routeMsg (step7 page7_waiting (Arrives7 0 (Route route_north))) \<noteq> ErrorFindingRoute"
  using findRoute_draws_every_answer [of 0 page7_waiting route_north line_north]
  by (simp add: first_line_north page7_waiting_def page7_0_def line_north_def del: step7.simps)

text \<open>
  Every failure of the route request of version 7, and every answer without a route or
  without geometry, ends in the message "Error finding route."; the map is left as it is.
\<close>

lemma findRoute_error_message:
  "n < length (tasks7 s) \<and> tasks7 s ! n = Some AwaitRoute7 \<and> first_line resp = None \<longrightarrow>
     step7 s (Arrives7 n (Route resp)) = s\<lparr>routeMsg := ErrorFindingRoute, tasks7 := (tasks7 s)[n := None]\<rparr>"
  by (simp add: step7_route_answer route7_error del: step7.simps)

lemma findRoute_errors:
  "step7 page7_waiting (Arrives7 0 (Route Rejected))
     = page7_waiting\<lparr>routeMsg := ErrorFindingRoute, tasks7 := [None]\<rparr>
   \<and> step7 page7_waiting (Arrives7 0 (Route route_shapeless))
     = page7_waiting\<lparr>routeMsg := ErrorFindingRoute, tasks7 := [None]\<rparr>"
  using findRoute_error_message [of 0 page7_waiting Rejected]
    findRoute_error_message [of 0 page7_waiting route_shapeless]
  by (simp add: first_line_def route_shapeless_def page7_waiting_def page7_0_def del: step7.simps)

text \<open>
  The warning of version 7: the answer with the route of 333 km is reported with its length
  and with the gap of 333 km.
\<close>

lemma north_reported:
  "routeMsg (route7_arrived route_north page7_waiting) = FoundRoute ''333'' (Some ''333'')"
proof -
  have gap: "longestGap CHARGER_GAP_KM line_north = (333, True)"
    by (simp add: longestGap_foldl line_north_def three_degrees_north gap_update_def CHARGER_GAP_KM_def)
  have t: "toFixed0 333 = ''333''" "toFixed0 (333000 / 1000) = ''333''"
    by (simp_all add: toFixed0_def digits.simps)
  show ?thesis
    by (simp add: route7_arrived_def route_north_def gap length_text_def t Let_def)
qed

text \<open>
  \<^verbatim>\<open>nominatimSuggest\<close> of version 6 takes the display names as labels and removes no
  duplicates: rows named A, B, A, C give four suggestions.
\<close>

lemma nominatimSuggest_keeps_duplicates:
  "map label (fst (nominatimSuggest Map.empty ''abc'' ''o'' (Http True (Some abac_rows))))
     = [''A'', ''B'', ''A'', ''C'']"
  by (simp add: nominatimSuggest_miss key_abc finish_ok abac_rows_def row_item_def)

subsection \<open>Find route\<close>

lemma trim_Nil [simp]: "trim [] = []"
  by (simp add: trim_def)

lemma doRoute_incomplete:
  "trim (originEl s) = [] \<or> trim (destEl s) = [] \<Longrightarrow>
     doRoute s = (s\<lparr>msg := ''Please enter both origin and destination.''\<rparr>, None)"
  by (auto simp: doRoute_def Let_def)

text \<open>
  Claim C6. When the find button is clicked while the origin or the destination text is
  empty (or holds white space only), \<^verbatim>\<open>doRoute\<close> shows the message that asks for both, and
  nothing else changes: no request is sent, and no call is left waiting that could send
  one later. (The planner of version 7 has no such test, see \<open>findRoute_no_input_check\<close>.)
\<close>

theorem input_incomplete:
  "trim (originEl s) = [] \<or> trim (destEl s) = [] \<longrightarrow>
     step s FindClick = s\<lparr>msg := ''Please enter both origin and destination.''\<rparr>
     \<and> sent (step s FindClick) = sent s
     \<and> tasks (step s FindClick) = tasks s"
  by (auto simp: doRoute_incomplete spawn_def)

text \<open>
  The destination left empty, and an origin of two spaces.
\<close>

theorem input_incomplete_witness:
  "step (page0\<lparr>originEl := ''101 Collins Street, Melbourne, Victoria''\<rparr>) FindClick
     = page0\<lparr>originEl := ''101 Collins Street, Melbourne, Victoria'',
             msg := ''Please enter both origin and destination.''\<rparr>
   \<and> sent (step (page0\<lparr>originEl := ''101 Collins Street, Melbourne, Victoria''\<rparr>) FindClick) = []
   \<and> tasks (step (page0\<lparr>originEl := ''101 Collins Street, Melbourne, Victoria''\<rparr>) FindClick) = []
   \<and> step (page0\<lparr>originEl := ''  '', destEl := ''Perth''\<rparr>) FindClick
     = page0\<lparr>originEl := ''  '', destEl := ''Perth'',
             msg := ''Please enter both origin and destination.''\<rparr>"
  using input_incomplete [of "page0\<lparr>originEl := ''101 Collins Street, Melbourne, Victoria''\<rparr>"]
    input_incomplete [of "page0\<lparr>originEl := ''  '', destEl := ''Perth''\<rparr>"]
  by (simp add: page0_def trim_def is_space_def)

subsection \<open>The answer to the route request\<close>

lemma fetch_route_None: "fetch_route resp = None \<longleftrightarrow> no_route_answer resp"
  by (auto simp: fetch_route_def no_route_answer_def split: fetched.splits option.splits list.splits)

lemma route_arrived_unavailable:
  "no_route_answer resp \<Longrightarrow> route_arrived resp s = s\<lparr>msg := unavailable_msg\<rparr>"
  by (simp add: route_arrived_def unavailable_msg_def flip: fetch_route_None)

lemma fetch_route_first:
  "routes d = Some (r # rs) \<Longrightarrow> fetch_route (Http True (Some d)) = Some (geometry r, route_km r)"
  by (simp add: fetch_route_def route_km_def split: option.splits)

lemma found_msg_not_unavailable: "found_msg km \<noteq> unavailable_msg"
  by (simp add: found_msg_def unavailable_msg_def)

lemma draw_route_Some:
  "draw_route s (Some coords) km =
     s\<lparr>routeLayer := [coords], nearLayer := snd (near_chargers PROX_KM coords (EV_POINTS s)),
       nearHeat := (if fst (near_chargers PROX_KM coords (EV_POINTS s)) \<noteq> [] \<and> heatLayer s
                    then Some (fst (near_chargers PROX_KM coords (EV_POINTS s))) else None),
       fitted := Some coords, msg := found_msg km\<rparr>"
  by (simp add: draw_route_def Let_def)

lemma draw_route_None:
  "draw_route s None km = s\<lparr>routeLayer := [], nearLayer := [], nearHeat := None\<rparr>"
  by (simp add: draw_route_def)

lemma key_o_Melbourne: "cache_key ''o'' ''Melbourne'' = ''o|Melbourne''"
  by (simp add: cache_key_def trim_def is_space_def)
lemma key_d_Perth: "cache_key ''d'' ''Perth'' = ''d|Perth''"
  by (simp add: cache_key_def trim_def is_space_def)
lemma key_d_Sydney: "cache_key ''d'' ''Sydney'' = ''d|Sydney''"
  by (simp add: cache_key_def trim_def is_space_def)
lemma trims: "trim ''Melbourne'' = ''Melbourne''" "trim ''Perth'' = ''Perth''" "trim ''Sydney'' = ''Sydney''"
  by (simp_all add: trim_def is_space_def)

lemma on_vertex_near:
  assumes "p \<in> set coords" "pt_lat pt = snd p" "pt_lon pt = fst p" "0 \<le> thr"
  shows "near_route thr coords pt"
proof -
  have "vertex_km pt p = 0" using assms by (simp add: vertex_km_def haversineKm_same)
  then have "0 \<in> vertex_km pt ` set coords" using assms(1) by force
  then have "Min (vertex_km pt ` set coords) \<le> 0" by (intro Min_le) auto
  with assms show ?thesis by (auto simp: near_route_def)
qed

lemma near_perth: "near_route PROX_KM line_perth (charger_at (snd melbourne) (fst melbourne))"
  by (rule on_vertex_near [where p = melbourne]) (simp_all add: line_perth_def PROX_KM_def)

lemma near_sydney: "near_route PROX_KM line_sydney (charger_at (snd melbourne) (fst melbourne))"
  by (rule on_vertex_near [where p = melbourne]) (simp_all add: line_sydney_def PROX_KM_def)

lemma near_chargers_eq:
  "near_chargers thr coords points =
     (map (\<lambda>pt. (pt_lat pt, pt_lon pt)) (filter (near_route thr coords) points),
      map marker_of (filter (near_route thr coords) points))"
  by (simp add: near_chargers_def near_fold)

lemma run_Cons: "run s (e # evs) = run (step s e) evs"
  by (simp add: run_def)

lemma run_Nil: "run s [] = s"
  by (simp add: run_def)

lemmas page_eval =
  run_Cons run_Nil doRoute_def doRoute_dest_def doRoute_places_def Let_def trims
  geocodeFirst_start_def geocodeFirst_finish_def nominatimSuggest_start_def finish_ok
  first_item_def resume_def spawn_def settle_def row_item_def
  key_o_Melbourne key_d_Perth key_d_Sydney
  melbourne_rows_def perth_rows_def sydney_rows_def

lemma searching_eq:
  "searching =
     page0\<lparr>geoCache := [''o|Melbourne'' \<mapsto> map row_item melbourne_rows,
                          ''d|Perth'' \<mapsto> map row_item perth_rows,
                          ''d|Sydney'' \<mapsto> map row_item sydney_rows],
       originEl := ''Melbourne'', destEl := ''Sydney'', msg := ''Finding route...'',
       sent := [NominatimSearch ''Melbourne'', NominatimSearch ''Perth'',
                OsrmRoute (fst melbourne) (snd melbourne) (fst perth) (snd perth),
                NominatimSearch ''Sydney'',
                OsrmRoute (fst melbourne) (snd melbourne) (fst sydney) (snd sydney)],
       tasks := [Some AwaitRoute, Some AwaitRoute]\<rparr>"
  by (simp add: searching_def two_searches_def page_eval page0_def)

lemma searching_sel:
  "tasks searching = [Some AwaitRoute, Some AwaitRoute]"
  "EV_POINTS searching = [charger_at (snd melbourne) (fst melbourne)]"
  "heatLayer searching"
  by (simp_all add: searching_eq page0_def)

lemma route_arrived_drawn:
  "routes d = Some (r # rs) \<Longrightarrow> geometry r = Some coords \<Longrightarrow>
     route_arrived (Http True (Some d)) s =
       s\<lparr>routeLayer := [coords],
         nearLayer := map marker_of (filter (near_route PROX_KM coords) (EV_POINTS s)),
         nearHeat := (if filter (near_route PROX_KM coords) (EV_POINTS s) \<noteq> [] \<and> heatLayer s
                      then Some (map (\<lambda>pt. (pt_lat pt, pt_lon pt))
                                  (filter (near_route PROX_KM coords) (EV_POINTS s)))
                      else None),
         fitted := Some coords, msg := found_msg (route_km r)\<rparr>"
  by (simp add: route_arrived_def fetch_route_first draw_route_Some near_chargers_eq)

lemma step_route_answer:
  "n < length (tasks s) \<Longrightarrow> tasks s ! n = Some AwaitRoute \<Longrightarrow>
     step s (Arrives n (Route resp)) = (route_arrived resp s)\<lparr>tasks := (tasks s)[n := None]\<rparr>"
  by (simp add: resume_def settle_def route_arrived_def draw_route_def Let_def
      split: option.splits prod.splits)

text \<open>
  Claim C1, as the code has it. \<^verbatim>\<open>doRoute\<close> keeps no request token and never looks whether
  a later search has been started. When the answer to the route request of any waiting
  call arrives and holds a route, the line, the markers of the near chargers, the heat
  layer and the message of that call replace what the map shows, whatever other calls
  have been started or have drawn since. \<^verbatim>\<open>findRoute\<close> of version 7 has no token either:
  the line of every answer that arrives is added to the map.
\<close>

theorem every_route_answer_drawn:
  "(n < length (tasks s) \<and> tasks s ! n = Some AwaitRoute
      \<and> routes d = Some (r # rs) \<and> geometry r = Some coords \<longrightarrow>
    step s (Arrives n (Route (Http True (Some d)))) =
      s\<lparr>routeLayer := [coords],
        nearLayer := map marker_of (filter (near_route PROX_KM coords) (EV_POINTS s)),
        nearHeat := (if filter (near_route PROX_KM coords) (EV_POINTS s) \<noteq> [] \<and> heatLayer s
                     then Some (map (\<lambda>pt. (pt_lat pt, pt_lon pt))
                                 (filter (near_route PROX_KM coords) (EV_POINTS s)))
                     else None),
        fitted := Some coords, msg := found_msg (route_km r),
        tasks := (tasks s)[n := None]\<rparr>)
   \<and> (k < length (tasks7 s7) \<and> tasks7 s7 ! k = Some AwaitRoute7 \<and> first_line resp = Some line \<longrightarrow>
        mapLines (step7 s7 (Arrives7 k (Route resp))) = mapLines s7 @ [map (\<lambda>c. (snd c, fst c)) line]
        \<and> routeMsg (step7 s7 (Arrives7 k (Route resp))) \<noteq> ErrorFindingRoute)"
  using findRoute_draws_every_answer [of k s7 resp line]
  by (simp add: step_route_answer route_arrived_drawn del: step.simps step7.simps)

lemma found_perth:
  "found_msg (3418207 / 1000) = ''Found route (3418 km). Chargers within 5.0 km highlighted.''"
  by (simp add: found_msg_def toFixed0_def digits.simps)

lemma found_sydney:
  "found_msg (877601 / 1000) = ''Found route (878 km). Chargers within 5.0 km highlighted.''"
  by (simp add: found_msg_def toFixed0_def digits.simps)

lemma perth_drawn:
  assumes "tasks s ! 0 = Some AwaitRoute" "tasks s \<noteq> []"
    and "EV_POINTS s = [charger_at (snd melbourne) (fst melbourne)]" "heatLayer s"
  shows "step s (Arrives 0 (Route route_perth)) =
     s\<lparr>routeLayer := [line_perth],
       nearLayer := [marker_of (charger_at (snd melbourne) (fst melbourne))],
       nearHeat := Some [(snd melbourne, fst melbourne)],
       fitted := Some line_perth,
       msg := ''Found route (3418 km). Chargers within 5.0 km highlighted.'',
       tasks := (tasks s)[0 := None]\<rparr>"
  using assms
  by (simp add: step_route_answer route_perth_def route_arrived_drawn [where rs = "[]"]
      near_perth route_km_def found_perth del: step.simps)

lemma sydney_drawn:
  "step searching (Arrives 1 (Route route_sydney)) =
     searching\<lparr>routeLayer := [line_sydney],
       nearLayer := [marker_of (charger_at (snd melbourne) (fst melbourne))],
       nearHeat := Some [(snd melbourne, fst melbourne)],
       fitted := Some line_sydney,
       msg := ''Found route (878 km). Chargers within 5.0 km highlighted.'',
       tasks := [Some AwaitRoute, None]\<rparr>"
  by (simp add: step_route_answer searching_sel route_sydney_def route_arrived_drawn [where rs = "[]"]
      near_sydney route_km_def found_sydney del: step.simps)

lemma drawn_eq:
  "drawn =
     searching\<lparr>routeLayer := [line_sydney],
       nearLayer := [marker_of (charger_at (snd melbourne) (fst melbourne))],
       nearHeat := Some [(snd melbourne, fst melbourne)],
       fitted := Some line_sydney,
       msg := ''Found route (878 km). Chargers within 5.0 km highlighted.'',
       tasks := [Some AwaitRoute, None]\<rparr>"
proof -
  have "drawn = step searching (Arrives 1 (Route route_sydney))"
    by (simp add: drawn_def searching_def two_searches_def run_def)
  then show ?thesis by (simp only: sydney_drawn)
qed

lemma drawn_sel:
  "tasks drawn = [Some AwaitRoute, None]"
  "EV_POINTS drawn = [charger_at (snd melbourne) (fst melbourne)]"
  "heatLayer drawn"
  "routeLayer drawn = [line_sydney]"
  "geoCache drawn = [''o|Melbourne'' \<mapsto> map row_item melbourne_rows,
                    ''d|Perth'' \<mapsto> map row_item perth_rows,
                    ''d|Sydney'' \<mapsto> map row_item sydney_rows]"
  by (simp_all add: drawn_eq searching_eq page0_def)

text \<open>
  The claim as the spec states it fails on the two searches: the route to Sydney, of the
  second search, is on the map when the answer for the first search arrives; that answer
  is not discarded, and the map ends with the line, the markers and the message of the
  search to Perth.
\<close>

theorem stale_route_drawn:
  "routeLayer (run page0 (take 9 two_searches)) = [line_sydney]
   \<and> run page0 two_searches =
       drawn\<lparr>routeLayer := [line_perth],
         nearLayer := [marker_of (charger_at (snd melbourne) (fst melbourne))],
         nearHeat := Some [(snd melbourne, fst melbourne)],
         fitted := Some line_perth,
         msg := ''Found route (3418 km). Chargers within 5.0 km highlighted.'',
         tasks := [None, None]\<rparr>"
proof -
  have "run page0 two_searches = step (run page0 (take 9 two_searches)) (Arrives 0 (Route route_perth))"
    by (simp add: two_searches_def run_def)
  also have "\<dots> = step drawn (Arrives 0 (Route route_perth))"
    by (simp only: drawn_def)
  also have "\<dots> = drawn\<lparr>routeLayer := [line_perth],
       nearLayer := [marker_of (charger_at (snd melbourne) (fst melbourne))],
       nearHeat := Some [(snd melbourne, fst melbourne)],
       fitted := Some line_perth,
       msg := ''Found route (3418 km). Chargers within 5.0 km highlighted.'',
       tasks := (tasks drawn)[0 := None]\<rparr>"
    by (rule perth_drawn) (simp_all add: drawn_sel)
  finally have "run page0 two_searches =
       drawn\<lparr>routeLayer := [line_perth],
         nearLayer := [marker_of (charger_at (snd melbourne) (fst melbourne))],
         nearHeat := Some [(snd melbourne, fst melbourne)],
         fitted := Some line_perth,
         msg := ''Found route (3418 km). Chargers within 5.0 km highlighted.'',
         tasks := [None, None]\<rparr>"
    by (simp add: drawn_sel)
  moreover have "routeLayer (run page0 (take 9 two_searches)) = [line_sydney]"
    using drawn_sel(4) by (simp only: drawn_def)
  ultimately show ?thesis by simp
qed

text \<open>
  The first search of the two, answered while the second one still waits; and a second
  line on the map of version 7.
\<close>

theorem every_route_answer_drawn_witness:
  "step searching (Arrives 0 (Route route_perth)) =
     searching\<lparr>routeLayer := [line_perth],
       nearLayer := [marker_of (charger_at (snd melbourne) (fst melbourne))],
       nearHeat := Some [(snd melbourne, fst melbourne)],
       fitted := Some line_perth,
       msg := ''Found route (3418 km). Chargers within 5.0 km highlighted.'',
       tasks := [None, Some AwaitRoute]\<rparr>
   \<and> mapLines (step7 page7_waiting (Arrives7 0 (Route route_north)))
       = [map (\<lambda>c. (snd c, fst c)) line_sydney, [(0, 0), (3, 0)]]"
proof -
  note inst = every_route_answer_drawn [of 0 searching
      "\<lparr>routes = Some [\<lparr>geometry = Some line_perth, distance = Some 3418207\<rparr>]\<rparr>"
      "\<lparr>geometry = Some line_perth, distance = Some 3418207\<rparr>" "[]" line_perth
      0 page7_waiting route_north line_north]
  have six: "step searching (Arrives 0 (Route route_perth)) =
     searching\<lparr>routeLayer := [line_perth],
       nearLayer := [marker_of (charger_at (snd melbourne) (fst melbourne))],
       nearHeat := Some [(snd melbourne, fst melbourne)],
       fitted := Some line_perth,
       msg := ''Found route (3418 km). Chargers within 5.0 km highlighted.'',
       tasks := [None, Some AwaitRoute]\<rparr>"
    using inst
    by (simp add: searching_sel route_perth_def near_perth route_km_def found_perth
        del: step.simps step7.simps)
  have seven: "mapLines (step7 page7_waiting (Arrives7 0 (Route route_north)))
       = [map (\<lambda>c. (snd c, fst c)) line_sydney, [(0, 0), (3, 0)]]"
    using inst
    by (simp add: first_line_north page7_waiting_def page7_0_def line_north_def
        del: step.simps step7.simps)
  from six seven show ?thesis by blast
qed

subsection \<open>No route\<close>

lemma step_no_route:
  "n < length (tasks s) \<Longrightarrow> tasks s ! n = Some AwaitRoute \<Longrightarrow> no_route_answer resp \<Longrightarrow>
     step s (Arrives n (Route resp)) = s\<lparr>msg := unavailable_msg, tasks := (tasks s)[n := None]\<rparr>"
  by (simp add: step_route_answer route_arrived_unavailable del: step.simps)

lemma first_route_answer:
  "routes d = Some (r # rs) \<Longrightarrow> \<not> no_route_answer (Http True (Some d))"
  by (simp add: no_route_answer_def)

text \<open>
  The answers that end in a message. In \<^verbatim>\<open>doRoute\<close>, when the fetch of the route is rejected,
  its status is not \<^verbatim>\<open>ok\<close>, its body cannot be read, or the body has no routes, the \<^verbatim>\<open>catch\<close>
  clause writes "Route unavailable. Try a nearby suburb or major city." and changes
  nothing else: no route is drawn and the layers stay as they were. An answer whose first
  route has a geometry is none of these: its line is drawn and the message reports the
  route found. In \<^verbatim>\<open>findRoute\<close> of version 7, whose \<^verbatim>\<open>try\<close> block holds the drawing too, every
  answer from which no line can be taken, a route without geometry among them, ends with
  the message "Error finding route." and leaves the map as it was.
\<close>

lemma route_unavailable_paths:
  "(n < length (tasks s) \<and> tasks s ! n = Some AwaitRoute \<and> no_route_answer resp \<longrightarrow>
      step s (Arrives n (Route resp)) = s\<lparr>msg := unavailable_msg, tasks := (tasks s)[n := None]\<rparr>)
   \<and> (routes d = Some (r # rs) \<and> geometry r = Some coords \<longrightarrow>
        \<not> no_route_answer (Http True (Some d))
        \<and> routeLayer (route_arrived (Http True (Some d)) s) = [coords]
        \<and> msg (route_arrived (Http True (Some d)) s) = found_msg (route_km r)
        \<and> found_msg (route_km r) \<noteq> unavailable_msg)
   \<and> (k < length (tasks7 s7) \<and> tasks7 s7 ! k = Some AwaitRoute7 \<and> first_line resp7 = None \<longrightarrow>
        step7 s7 (Arrives7 k (Route resp7))
          = s7\<lparr>routeMsg := ErrorFindingRoute, tasks7 := (tasks7 s7)[k := None]\<rparr>)"
  using findRoute_error_message [of k s7 resp7]
  by (simp add: step_no_route first_route_answer route_arrived_drawn found_msg_not_unavailable
      del: step.simps step7.simps)

text \<open>
  A rejected fetch, a status that is not \<^verbatim>\<open>ok\<close>, a body that cannot be read and an
  empty list of routes, each arriving while the route to Sydney is shown; the answer
  with the route to Perth; and, in version 7, the route without geometry.
\<close>

lemma route_unavailable_paths_shown:
  "step drawn (Arrives 0 (Route Rejected))
     = drawn\<lparr>msg := ''Route unavailable. Try a nearby suburb or major city.'', tasks := [None, None]\<rparr>
   \<and> step drawn (Arrives 0 (Route (Http False None)))
     = drawn\<lparr>msg := ''Route unavailable. Try a nearby suburb or major city.'', tasks := [None, None]\<rparr>
   \<and> step drawn (Arrives 0 (Route (Http True None)))
     = drawn\<lparr>msg := ''Route unavailable. Try a nearby suburb or major city.'', tasks := [None, None]\<rparr>
   \<and> step drawn (Arrives 0 (Route (Http True (Some \<lparr>routes = Some []\<rparr>))))
     = drawn\<lparr>msg := ''Route unavailable. Try a nearby suburb or major city.'', tasks := [None, None]\<rparr>
   \<and> routeLayer (step drawn (Arrives 0 (Route Rejected))) = [line_sydney]
   \<and> routeLayer (route_arrived route_perth drawn) = [line_perth]
   \<and> msg (route_arrived route_perth drawn) = ''Found route (3418 km). Chargers within 5.0 km highlighted.''
   \<and> step7 page7_waiting (Arrives7 0 (Route route_shapeless))
     = page7_waiting\<lparr>routeMsg := ErrorFindingRoute, tasks7 := [None]\<rparr>"
proof -
  note inst = route_unavailable_paths [where n = 0 and s = drawn and rs = "[]"
      and r = "\<lparr>geometry = Some line_perth, distance = Some 3418207\<rparr>"
      and d = "\<lparr>routes = Some [\<lparr>geometry = Some line_perth, distance = Some 3418207\<rparr>]\<rparr>"
      and coords = line_perth and k = 0 and ?s7.0 = page7_waiting and ?resp7.0 = route_shapeless]
  have a: "step drawn (Arrives 0 (Route Rejected))
     = drawn\<lparr>msg := unavailable_msg, tasks := [None, None]\<rparr>"
    using inst [where resp = Rejected]
    by (simp add: drawn_sel no_route_answer_def del: step.simps step7.simps)
  have b: "step drawn (Arrives 0 (Route (Http False None)))
     = drawn\<lparr>msg := unavailable_msg, tasks := [None, None]\<rparr>"
    using inst [where resp = "Http False None"]
    by (simp add: drawn_sel no_route_answer_def del: step.simps step7.simps)
  have c: "step drawn (Arrives 0 (Route (Http True None)))
     = drawn\<lparr>msg := unavailable_msg, tasks := [None, None]\<rparr>"
    using inst [where resp = "Http True None"]
    by (simp add: drawn_sel no_route_answer_def del: step.simps step7.simps)
  have d: "step drawn (Arrives 0 (Route (Http True (Some \<lparr>routes = Some []\<rparr>))))
     = drawn\<lparr>msg := unavailable_msg, tasks := [None, None]\<rparr>"
    using inst [where resp = "Http True (Some \<lparr>routes = Some []\<rparr>)"]
    by (simp add: drawn_sel no_route_answer_def del: step.simps step7.simps)
  have e: "routeLayer (route_arrived route_perth drawn) = [line_perth]
      \<and> msg (route_arrived route_perth drawn) = found_msg (3418207 / 1000)"
    using inst [where resp = Rejected]
    by (simp add: route_perth_def route_km_def del: step.simps step7.simps)
  have f: "step7 page7_waiting (Arrives7 0 (Route route_shapeless))
     = page7_waiting\<lparr>routeMsg := ErrorFindingRoute, tasks7 := [None]\<rparr>"
    using inst [where resp = Rejected]
    by (simp add: first_line_def route_shapeless_def page7_waiting_def page7_0_def
        del: step.simps step7.simps)
  from a b c d e f show ?thesis
    by (simp add: unavailable_msg_def drawn_sel found_perth del: step.simps step7.simps)
qed

lemma shapeless_eq:
  "run page0 shapeless_search =
     page0\<lparr>geoCache := [''o|Melbourne'' \<mapsto> map row_item melbourne_rows,
                          ''d|Sydney'' \<mapsto> map row_item sydney_rows],
       originEl := ''Melbourne'', destEl := ''Sydney'', msg := ''Finding route...'',
       sent := [NominatimSearch ''Melbourne'', NominatimSearch ''Sydney'',
                OsrmRoute (fst melbourne) (snd melbourne) (fst sydney) (snd sydney)],
       tasks := [None]\<rparr>"
  by (simp add: shapeless_search_def page_eval page0_def route_shapeless_def route_arrived_def
      fetch_route_def draw_route_None)

lemma shapeless_on_drawn:
  "step drawn (Arrives 0 (Route route_shapeless))
     = drawn\<lparr>routeLayer := [], nearLayer := [], nearHeat := None, tasks := [None, None]\<rparr>"
  by (simp add: step_route_answer drawn_sel route_shapeless_def route_arrived_def
      fetch_route_def draw_route_None del: step.simps)

lemma msg_drawn: "msg drawn = ''Found route (878 km). Chargers within 5.0 km highlighted.''"
  by (simp add: drawn_eq)

text \<open>
  Claim C7: the route fetch fails with \<^verbatim>\<open>RouteUnavailable\<close> when the status is not
  successful, when the answer has no routes, and when the answer cannot be parsed as the
  expected geometry; in each case the page shows the message "Route unavailable. Try a
  nearby suburb or major city." and renders no route. \<^verbatim>\<open>doRoute\<close> does so in the first two
  cases and misses the third: its \<^verbatim>\<open>try\<close> block stores \<^verbatim>\<open>route.geometry\<close> without looking at
  it, and the statements that use it stand after the block. On an answer with status
  \<^verbatim>\<open>ok\<close> whose first route has no geometry the layers are cleared and the call ends in an
  error that nothing catches, the message left as it was: "Finding route..." on a first
  search; and where the route to Sydney is shown, its line, markers and heat layer are
  gone and the message still reports that route as found.
\<close>

theorem shapeless_route_no_message:
  "geometry_unreadable route_shapeless
   \<and> msg (run page0 shapeless_search) = ''Finding route...''
   \<and> msg (run page0 shapeless_search) \<noteq> unavailable_msg
   \<and> routeLayer (run page0 shapeless_search) = []
   \<and> routeLayer drawn = [line_sydney]
   \<and> step drawn (Arrives 0 (Route route_shapeless))
       = drawn\<lparr>routeLayer := [], nearLayer := [], nearHeat := None, tasks := [None, None]\<rparr>
   \<and> msg (step drawn (Arrives 0 (Route route_shapeless)))
       = ''Found route (878 km). Chargers within 5.0 km highlighted.''"
proof -
  have a: "geometry_unreadable route_shapeless"
    by (simp add: geometry_unreadable_def route_shapeless_def)
  have b: "msg (run page0 shapeless_search) = ''Finding route...''
      \<and> msg (run page0 shapeless_search) \<noteq> unavailable_msg
      \<and> routeLayer (run page0 shapeless_search) = []"
    by (simp only: shapeless_eq) (simp add: unavailable_msg_def page0_def)
  have c: "msg (step drawn (Arrives 0 (Route route_shapeless)))
       = ''Found route (878 km). Chargers within 5.0 km highlighted.''"
    by (simp only: shapeless_on_drawn) (simp add: msg_drawn)
  from a b c shapeless_on_drawn drawn_sel(4) show ?thesis
    by blast
qed

subsection \<open>Clear\<close>

text \<open>
  Claim C10. The clear button empties the route layer and the near-charger layer, removes
  the heat layer and blanks the message; every other part of the page is as before: the
  cache, the charger points, the input fields and their lists, the view of the map, the
  requests sent and the waiting calls. So a query that was in the cache is still answered
  from it, with no request.
\<close>

theorem clear_keeps_rest:
  "step s ClearClick = s\<lparr>routeLayer := [], nearLayer := [], nearHeat := None, msg := []\<rparr>
   \<and> geoCache (step s ClearClick) = geoCache s
   \<and> EV_POINTS (step s ClearClick) = EV_POINTS s
   \<and> (3 \<le> length q \<and> geoCache s (cache_key which q) = Some found \<longrightarrow>
        nominatimSuggest (geoCache (step s ClearClick)) q which resp = (found, geoCache s, []))"
  by (simp add: clear_click_def nominatimSuggest_hit)

text \<open>
  Clearing the page that shows the route to Sydney; the lookup for Perth still needs no
  network.
\<close>

theorem clear_keeps_rest_witness:
  "routeLayer drawn = [line_sydney]
   \<and> step drawn ClearClick = drawn\<lparr>routeLayer := [], nearLayer := [], nearHeat := None, msg := []\<rparr>
   \<and> nominatimSuggest (geoCache (step drawn ClearClick)) ''Perth'' ''d'' Rejected
       = (map row_item perth_rows, geoCache drawn, [])"
proof -
  note inst = clear_keeps_rest [of drawn "''Perth''" "''d''" "map row_item perth_rows" Rejected]
  have cached: "3 \<le> length ''Perth''
      \<and> geoCache drawn (cache_key ''d'' ''Perth'') = Some (map row_item perth_rows)"
    by (simp add: drawn_sel key_d_Perth)
  from inst have cleared:
    "step drawn ClearClick = drawn\<lparr>routeLayer := [], nearLayer := [], nearHeat := None, msg := []\<rparr>"
    by (rule conjunct1)
  from inst cached have again:
    "nominatimSuggest (geoCache (step drawn ClearClick)) ''Perth'' ''d'' Rejected
       = (map row_item perth_rows, geoCache drawn, [])"
    by blast
  from drawn_sel(4) cleared again show ?thesis by blast
qed

subsection \<open>Great-circle distance\<close>

text \<open>Polynomial bounds of the arc tangent, the sine and the cosine, and bounds of \<open>\<pi>\<close>.\<close>

lemma arctan_ge_cubic:
  fixes x :: real
  assumes "0 \<le> x"
  shows "x - x ^ 3 / 3 \<le> arctan x"
proof -
  let ?f = "\<lambda>t::real. arctan t - t + t ^ 3 / 3"
  have "?f 0 \<le> ?f x"
  proof (rule DERIV_nonneg_imp_nondecreasing [OF assms])
    fix t :: real
    have d: "DERIV ?f t :> inverse (1 + t\<^sup>2) - 1 + t\<^sup>2"
      by (auto intro!: derivative_eq_intros simp: power2_eq_square)
    have pos: "0 < 1 + t\<^sup>2" by (simp add: add_pos_nonneg)
    have "inverse (1 + t\<^sup>2) - 1 + t\<^sup>2 = t ^ 4 / (1 + t\<^sup>2)"
      using pos by (simp add: field_simps power2_eq_square power4_eq_xxxx)
    also have "\<dots> \<ge> 0" using pos by simp
    finally show "\<exists>y. DERIV ?f t :> y \<and> 0 \<le> y" using d by blast
  qed
  then show ?thesis by simp
qed

lemma arctan_le_quintic:
  fixes x :: real
  assumes "0 \<le> x"
  shows "arctan x \<le> x - x ^ 3 / 3 + x ^ 5 / 5"
proof -
  let ?f = "\<lambda>t::real. t - t ^ 3 / 3 + t ^ 5 / 5 - arctan t"
  have "?f 0 \<le> ?f x"
  proof (rule DERIV_nonneg_imp_nondecreasing [OF assms])
    fix t :: real
    have d: "DERIV ?f t :> 1 - t\<^sup>2 + t ^ 4 - inverse (1 + t\<^sup>2)"
      by (auto intro!: derivative_eq_intros simp: power2_eq_square power4_eq_xxxx)
    have pos: "0 < 1 + t\<^sup>2" by (simp add: add_pos_nonneg)
    have "1 - t\<^sup>2 + t ^ 4 - inverse (1 + t\<^sup>2) = t ^ 6 / (1 + t\<^sup>2)"
      using pos by (simp add: field_simps power2_eq_square power4_eq_xxxx) (simp add: numeral_eq_Suc)
    also have "\<dots> \<ge> 0" using pos by simp
    finally show "\<exists>y. DERIV ?f t :> y \<and> 0 \<le> y" using d by blast
  qed
  then show ?thesis by simp
qed

lemma arctan_le_self:
  fixes x :: real
  assumes "0 \<le> x"
  shows "arctan x \<le> x"
proof -
  let ?f = "\<lambda>t::real. t - arctan t"
  have "?f 0 \<le> ?f x"
  proof (rule DERIV_nonneg_imp_nondecreasing [OF assms])
    fix t :: real
    have d: "DERIV ?f t :> 1 - inverse (1 + t\<^sup>2)"
      by (auto intro!: derivative_eq_intros)
    have pos: "0 < 1 + t\<^sup>2" by (simp add: add_pos_nonneg)
    have "1 - inverse (1 + t\<^sup>2) = t\<^sup>2 / (1 + t\<^sup>2)"
      using pos by (simp add: field_simps)
    also have "\<dots> \<ge> 0" using pos by simp
    finally show "\<exists>y. DERIV ?f t :> y \<and> 0 \<le> y" using d by blast
  qed
  then show ?thesis by simp
qed

lemma cos_ge_quadratic:
  fixes x :: real
  shows "1 - x\<^sup>2 / 2 \<le> cos x"
proof -
  have nonneg: "1 - t\<^sup>2 / 2 \<le> cos t" if "0 \<le> t" for t :: real
  proof -
    let ?f = "\<lambda>u::real. cos u - 1 + u\<^sup>2 / 2"
    have "?f 0 \<le> ?f t"
    proof (rule DERIV_nonneg_imp_nondecreasing [OF that])
      fix u :: real assume "0 \<le> u"
      have d: "DERIV ?f u :> - sin u + u"
        by (auto intro!: derivative_eq_intros)
      have "0 \<le> - sin u + u" using sin_x_le_x [OF \<open>0 \<le> u\<close>] by simp
      with d show "\<exists>y. DERIV ?f u :> y \<and> 0 \<le> y" by blast
    qed
    then show ?thesis by simp
  qed
  show ?thesis
  proof (cases "0 \<le> x")
    case True
    then show ?thesis by (rule nonneg)
  next
    case False
    then have "1 - (- x)\<^sup>2 / 2 \<le> cos (- x)" by (intro nonneg) simp
    then show ?thesis by simp
  qed
qed

lemma sin_ge_cubic:
  fixes x :: real
  assumes "0 \<le> x"
  shows "x - x ^ 3 / 6 \<le> sin x"
proof -
  let ?f = "\<lambda>u::real. sin u - u + u ^ 3 / 6"
  have "?f 0 \<le> ?f x"
  proof (rule DERIV_nonneg_imp_nondecreasing [OF assms])
    fix u :: real
    have d: "DERIV ?f u :> cos u - 1 + u\<^sup>2 / 2"
      by (auto intro!: derivative_eq_intros simp: power2_eq_square)
    have "0 \<le> cos u - 1 + u\<^sup>2 / 2" using cos_ge_quadratic [of u] by simp
    with d show "\<exists>y. DERIV ?f u :> y \<and> 0 \<le> y" by blast
  qed
  then show ?thesis by simp
qed

lemma cos_le_quartic:
  fixes x :: real
  shows "cos x \<le> 1 - x\<^sup>2 / 2 + x ^ 4 / 24"
proof -
  have nonneg: "cos t \<le> 1 - t\<^sup>2 / 2 + t ^ 4 / 24" if "0 \<le> t" for t :: real
  proof -
    let ?f = "\<lambda>u::real. 1 - u\<^sup>2 / 2 + u ^ 4 / 24 - cos u"
    have "?f 0 \<le> ?f t"
    proof (rule DERIV_nonneg_imp_nondecreasing [OF that])
      fix u :: real assume "0 \<le> u"
      have d: "DERIV ?f u :> - u + u ^ 3 / 6 + sin u"
        by (auto intro!: derivative_eq_intros simp: power2_eq_square power3_eq_cube)
      have "0 \<le> - u + u ^ 3 / 6 + sin u" using sin_ge_cubic [OF \<open>0 \<le> u\<close>] by simp
      with d show "\<exists>y. DERIV ?f u :> y \<and> 0 \<le> y" by blast
    qed
    then show ?thesis by simp
  qed
  show ?thesis
  proof (cases "0 \<le> x")
    case True
    then show ?thesis by (rule nonneg)
  next
    case False
    then have "cos (- x) \<le> 1 - (- x)\<^sup>2 / 2 + (- x) ^ 4 / 24" by (intro nonneg) simp
    then show ?thesis by simp
  qed
qed

lemma arctan_fifth: "74 / 375 \<le> arctan (1 / 5 :: real)" "arctan (1 / 5 :: real) \<le> 9253 / 46875"
  using arctan_ge_cubic [of "1 / 5"] arctan_le_quintic [of "1 / 5"]
  by (simp_all add: power_divide)

lemma arctan_239th: "171362 / 40955757 \<le> arctan (1 / 239 :: real)" "arctan (1 / 239 :: real) \<le> 1 / 239"
  using arctan_ge_cubic [of "1 / 239"] arctan_le_self [of "1 / 239"]
  by (simp_all add: power_divide)

lemma pi_lower: "157 / 50 \<le> pi"
  using arctan_fifth(1) arctan_239th(2) machin by linarith

lemma pi_upper: "pi \<le> 1571 / 500"
  using arctan_fifth(2) arctan_239th(1) machin by linarith

lemma sin_between:
  fixes x :: real
  assumes "0 \<le> l" "l \<le> x" "x \<le> u"
  shows "l - u ^ 3 / 6 \<le> sin x" and "sin x \<le> u"
proof -
  have x: "0 \<le> x" using assms by simp
  have "x ^ 3 \<le> u ^ 3" using assms(3) x by (rule power_mono)
  with sin_ge_cubic [OF x] assms show "l - u ^ 3 / 6 \<le> sin x" by linarith
  from sin_x_le_x [OF x] assms show "sin x \<le> u" by linarith
qed

lemma cos_between:
  fixes x :: real
  assumes "0 \<le> l" "l \<le> x" "x \<le> u"
  shows "1 - u\<^sup>2 / 2 \<le> cos x" and "cos x \<le> 1 - l\<^sup>2 / 2 + u ^ 4 / 24"
proof -
  have x: "0 \<le> x" using assms by simp
  have u2: "x\<^sup>2 \<le> u\<^sup>2" using assms(3) x by (rule power_mono)
  have u4: "x ^ 4 \<le> u ^ 4" using assms(3) x by (rule power_mono)
  have l2: "l\<^sup>2 \<le> x\<^sup>2" using assms(2,1) by (rule power_mono)
  from cos_ge_quadratic [of x] u2 show "1 - u\<^sup>2 / 2 \<le> cos x" by linarith
  from cos_le_quartic [of x] l2 u4 show "cos x \<le> 1 - l\<^sup>2 / 2 + u ^ 4 / 24" by linarith
qed

lemma haversineKm_hav:
  "haversineKm lat1 lon1 lat2 lon2 =
     6371 * (2 * atan2 (sqrt (hav_a lat1 lon1 lat2 lon2)) (sqrt (1 - hav_a lat1 lon1 lat2 lon2)))"
  by (simp add: haversineKm_def hav_a_def Let_def)

lemma sin_half_squared: "(sin (x / 2))\<^sup>2 = (1 - cos x) / 2" for x :: real
  using cos_double_sin [of "x / 2"] by simp

lemma hav_a_cos:
  "hav_a lat1 lon1 lat2 lon2 =
     (1 - (cos (lat1 * pi / 180) * cos (lat2 * pi / 180) * cos ((lon2 - lon1) * pi / 180)
           + sin (lat1 * pi / 180) * sin (lat2 * pi / 180))) / 2"
proof -
  define c1 s1 c2 s2 k where "c1 = cos (lat1 * pi / 180)" and "s1 = sin (lat1 * pi / 180)"
    and "c2 = cos (lat2 * pi / 180)" and "s2 = sin (lat2 * pi / 180)"
    and "k = cos ((lon2 - lon1) * pi / 180)"
  have "(lat2 - lat1) * pi / 180 = lat2 * pi / 180 - lat1 * pi / 180"
    by (simp add: algebra_simps diff_divide_distrib)
  then have "cos ((lat2 - lat1) * pi / 180) = c2 * c1 + s2 * s1"
    by (simp only: cos_diff c1_def c2_def s1_def s2_def)
  then have dlat: "(sin ((lat2 - lat1) * pi / 180 / 2))\<^sup>2 = (1 - (c2 * c1 + s2 * s1)) / 2"
    by (simp only: sin_half_squared)
  have dlon: "(sin ((lon2 - lon1) * pi / 180 / 2))\<^sup>2 = (1 - k) / 2"
    by (simp only: sin_half_squared k_def)
  have "hav_a lat1 lon1 lat2 lon2 = (1 - (c2 * c1 + s2 * s1)) / 2 + c1 * c2 * ((1 - k) / 2)"
    unfolding hav_a_def dlat dlon by (simp only: c1_def c2_def)
  also have "\<dots> = (1 - (c1 * c2 * k + s1 * s2)) / 2"
    by (simp add: field_simps)
  finally show ?thesis
    by (simp only: c1_def c2_def s1_def s2_def k_def)
qed

lemma hav_a_range: "0 \<le> hav_a lat1 lon1 lat2 lon2" "hav_a lat1 lon1 lat2 lon2 \<le> 1"
proof -
  define A where "A = cos (lat1 * pi / 180) * cos (lat2 * pi / 180)"
  define B where "B = sin (lat1 * pi / 180) * sin (lat2 * pi / 180)"
  define k where "k = cos ((lon2 - lon1) * pi / 180)"
  have sum: "A + B = cos (lat1 * pi / 180 - lat2 * pi / 180)"
    by (simp add: A_def B_def cos_diff)
  have diff: "A - B = cos (lat1 * pi / 180 + lat2 * pi / 180)"
    by (simp add: A_def B_def cos_add)
  have s: "- 1 \<le> A + B" "A + B \<le> 1" unfolding sum by simp_all
  have d: "- 1 \<le> A - B" "A - B \<le> 1" unfolding diff by simp_all
  have k: "\<bar>k\<bar> \<le> 1" by (simp add: k_def abs_le_iff)
  have "\<bar>A * k\<bar> = \<bar>A\<bar> * \<bar>k\<bar>" by (rule abs_mult)
  also have "\<dots> \<le> \<bar>A\<bar>" using k by (simp add: mult_left_le)
  finally have Ak: "\<bar>A * k\<bar> \<le> \<bar>A\<bar>" .
  have X: "- 1 \<le> A * k + B" "A * k + B \<le> 1"
    using Ak s d by linarith+
  have eq: "hav_a lat1 lon1 lat2 lon2 = (1 - (A * k + B)) / 2"
    by (simp add: hav_a_cos A_def B_def k_def)
  from X show "0 \<le> hav_a lat1 lon1 lat2 lon2" "hav_a lat1 lon1 lat2 lon2 \<le> 1"
    unfolding eq by simp_all
qed

lemma atan2_sqrt:
  assumes "a < 1"
  shows "atan2 (sqrt a) (sqrt (1 - a)) = arctan (sqrt (a / (1 - a)))"
  using assms by (simp add: atan2_def real_sqrt_divide)

lemma haversineKm_nonneg: "0 \<le> haversineKm lat1 lon1 lat2 lon2"
proof -
  let ?a = "hav_a lat1 lon1 lat2 lon2"
  have "0 \<le> atan2 (sqrt ?a) (sqrt (1 - ?a))"
    using hav_a_range [of lat1 lon1 lat2 lon2]
    by (auto simp: atan2_def not_less intro!: divide_nonneg_pos)
  then show ?thesis by (simp add: haversineKm_hav)
qed

lemma haversineKm_le_half_circle: "haversineKm lat1 lon1 lat2 lon2 \<le> 6371 * pi"
proof -
  let ?a = "hav_a lat1 lon1 lat2 lon2"
  have "atan2 (sqrt ?a) (sqrt (1 - ?a)) \<le> pi / 2"
    using hav_a_range [of lat1 lon1 lat2 lon2] arctan_ubound [of "sqrt ?a / sqrt (1 - ?a)"]
    by (auto simp: atan2_def not_less)
  then show ?thesis by (simp add: haversineKm_hav)
qed

lemma haversineKm_antipodes: "haversineKm 0 0 0 180 = 6371 * pi"
  by (simp add: haversineKm_def atan2_def)

lemma square_between:
  fixes x :: real
  assumes "0 \<le> l" "l \<le> x" "x \<le> u"
  shows "l\<^sup>2 \<le> x\<^sup>2" and "x\<^sup>2 \<le> u\<^sup>2"
proof -
  show "l\<^sup>2 \<le> x\<^sup>2" using assms(2,1) by (rule power_mono)
  have "0 \<le> x" using assms by simp
  with assms(3) show "x\<^sup>2 \<le> u\<^sup>2" by (rule power_mono)
qed

lemma product_between:
  fixes x y :: real
  assumes "0 \<le> a" "a \<le> x" "x \<le> b" "0 \<le> c" "c \<le> y" "y \<le> d"
  shows "a * c \<le> x * y" and "x * y \<le> b * d"
proof -
  have x: "0 \<le> x" and y: "0 \<le> y" using assms by simp_all
  show "a * c \<le> x * y" using assms(2,5) x assms(4) by (rule mult_mono)
  have "0 \<le> b" using x assms(3) by simp
  with assms(3,6) show "x * y \<le> b * d" using y by (intro mult_mono) simp_all
qed

text \<open>
  Sydney and Melbourne. The four angles of the formula, in radians, lie between these
  bounds; so do their sines and cosines.
\<close>

lemma half_dlat_bounds: "(172037 / 5000000) \<le> ((4931 / 2500) * pi / 180)" "((4931 / 2500) * pi / 180) \<le> (172147 / 5000000)"
  using pi_lower pi_upper by simp_all

lemma half_dlon_bounds: "(544807 / 10000000) \<le> ((31231 / 10000) * pi / 180)" "((31231 / 10000) * pi / 180) \<le> (109031 / 2000000)"
  using pi_lower pi_upper by simp_all

lemma lat_sydney_bounds: "(46158 / 78125) \<le> ((21168 / 625) * pi / 180)" "((21168 / 625) * pi / 180) \<le> (1477997 / 2500000)"
  using pi_lower pi_upper by simp_all

lemma lat_melbourne_bounds: "(1649093 / 2500000) \<le> ((47267 / 1250) * pi / 180)" "((47267 / 1250) * pi / 180) \<le> (3300287 / 5000000)"
  using pi_lower pi_upper by simp_all

lemma sin_half_dlat: "(68801 / 2000000) \<le> sin ((4931 / 2500) * pi / 180)" "sin ((4931 / 2500) * pi / 180) \<le> (172147 / 5000000)"
proof -
  have "(68801 / 2000000) \<le> (172037 / 5000000) - (172147 / 5000000) ^ 3 / (6 :: real)"
    by (simp add: power_divide)
  also have "\<dots> \<le> sin ((4931 / 2500) * pi / 180)"
    by (rule sin_between [OF _ half_dlat_bounds]) simp
  finally show "(68801 / 2000000) \<le> sin ((4931 / 2500) * pi / 180)" .
  show "sin ((4931 / 2500) * pi / 180) \<le> (172147 / 5000000)"
    by (rule sin_between [OF _ half_dlat_bounds]) simp
qed

lemma sin_half_dlon: "(68067 / 1250000) \<le> sin ((31231 / 10000) * pi / 180)" "sin ((31231 / 10000) * pi / 180) \<le> (109031 / 2000000)"
proof -
  have "(68067 / 1250000) \<le> (544807 / 10000000) - (109031 / 2000000) ^ 3 / (6 :: real)"
    by (simp add: power_divide)
  also have "\<dots> \<le> sin ((31231 / 10000) * pi / 180)"
    by (rule sin_between [OF _ half_dlon_bounds]) simp
  finally show "(68067 / 1250000) \<le> sin ((31231 / 10000) * pi / 180)" .
  show "sin ((31231 / 10000) * pi / 180) \<le> (109031 / 2000000)"
    by (rule sin_between [OF _ half_dlon_bounds]) simp
qed

lemma cos_lat_sydney: "(8252419 / 10000000) \<le> cos ((21168 / 625) * pi / 180)" "cos ((21168 / 625) * pi / 180) \<le> (4152773 / 5000000)"
proof -
  have "(8252419 / 10000000) \<le> 1 - (1477997 / 2500000)\<^sup>2 / (2 :: real)"
    by (simp add: power_divide)
  also have "\<dots> \<le> cos ((21168 / 625) * pi / 180)"
    by (rule cos_between [OF _ lat_sydney_bounds]) simp
  finally show "(8252419 / 10000000) \<le> cos ((21168 / 625) * pi / 180)" .
  have "cos ((21168 / 625) * pi / 180) \<le> 1 - (46158 / 78125)\<^sup>2 / 2 + (1477997 / 2500000) ^ 4 / 24"
    by (rule cos_between [OF _ lat_sydney_bounds]) simp
  also have "\<dots> \<le> (4152773 / 5000000)"
    by (simp add: power_divide)
  finally show "cos ((21168 / 625) * pi / 180) \<le> (4152773 / 5000000)" .
qed

lemma cos_lat_melbourne: "(7821621 / 10000000) \<le> cos ((47267 / 1250) * pi / 180)" "cos ((47267 / 1250) * pi / 180) \<le> (7903483 / 10000000)"
proof -
  have "(7821621 / 10000000) \<le> 1 - (3300287 / 5000000)\<^sup>2 / (2 :: real)"
    by (simp add: power_divide)
  also have "\<dots> \<le> cos ((47267 / 1250) * pi / 180)"
    by (rule cos_between [OF _ lat_melbourne_bounds]) simp
  finally show "(7821621 / 10000000) \<le> cos ((47267 / 1250) * pi / 180)" .
  have "cos ((47267 / 1250) * pi / 180) \<le> 1 - (1649093 / 2500000)\<^sup>2 / 2 + (3300287 / 5000000) ^ 4 / 24"
    by (rule cos_between [OF _ lat_melbourne_bounds]) simp
  also have "\<dots> \<le> (7903483 / 10000000)"
    by (simp add: power_divide)
  finally show "cos ((47267 / 1250) * pi / 180) \<le> (7903483 / 10000000)" .
qed

lemma syd_mel_a_bounds: "(154867 / 50000000) \<le> syd_mel_a" "syd_mel_a \<le> (2509 / 800000)"
proof -
  note s1 = square_between [OF _ sin_half_dlat]
  note s2 = square_between [OF _ sin_half_dlon]
  note cc = product_between [OF _ cos_lat_sydney _ cos_lat_melbourne]
  have cc0: "0 \<le> (8252419 / 10000000) * ((7821621 / 10000000) :: real)" by simp
  have s20: "0 \<le> ((68067 / 1250000) :: real)\<^sup>2" by simp
  note ccs = product_between [OF cc0 cc s20 s2]
  have "(154867 / 50000000) \<le> (68801 / 2000000)\<^sup>2 + (8252419 / 10000000) * (7821621 / 10000000) * ((68067 / 1250000) :: real)\<^sup>2"
    by (simp add: power_divide)
  also have "\<dots> \<le> syd_mel_a"
    unfolding syd_mel_a_def by (intro add_mono s1 ccs) simp_all
  finally show "(154867 / 50000000) \<le> syd_mel_a" .
  have "syd_mel_a \<le> (172147 / 5000000)\<^sup>2 + (4152773 / 5000000) * (7903483 / 10000000) * ((109031 / 2000000) :: real)\<^sup>2"
    unfolding syd_mel_a_def by (intro add_mono s1 ccs) simp_all
  also have "\<dots> \<le> (2509 / 800000)"
    by (simp add: power_divide)
  finally show "syd_mel_a \<le> (2509 / 800000)" .
qed

lemma syd_mel_hav_a: "hav_a (- 33.8688) 151.2093 (- 37.8136) 144.9631 = syd_mel_a"
proof -
  have lat: "(- 37.8136 - - 33.8688) * pi / 180 / 2 = - ((4931 / 2500) * pi / 180)" by simp
  have lon: "(144.9631 - 151.2093) * pi / 180 / 2 = - ((31231 / 10000) * pi / 180)" by simp
  have c1: "- 33.8688 * pi / 180 = - ((21168 / 625) * pi / 180)" by simp
  have c2: "- 37.8136 * pi / 180 = - ((47267 / 1250) * pi / 180)" by simp
  show ?thesis
    unfolding hav_a_def syd_mel_a_def lat lon c1 c2 by (simp only: sin_minus cos_minus power2_minus)
qed

lemma ratio_mono:
  fixes a b :: real
  assumes "0 \<le> a" "a \<le> b" "b < 1"
  shows "a / (1 - a) \<le> b / (1 - b)"
  using assms by (intro frac_le) simp_all

lemma syd_mel_ratio:
  "(2787 / 50000)\<^sup>2 \<le> syd_mel_a / (1 - syd_mel_a)"
  "syd_mel_a / (1 - syd_mel_a) \<le> (56091 / 1000000)\<^sup>2"
proof -
  have "((2787 / 50000) :: real)\<^sup>2 \<le> (154867 / 50000000) / (1 - (154867 / 50000000))"
    by (simp add: power_divide)
  also have "\<dots> \<le> syd_mel_a / (1 - syd_mel_a)"
    using syd_mel_a_bounds by (intro ratio_mono) simp_all
  finally show "(2787 / 50000)\<^sup>2 \<le> syd_mel_a / (1 - syd_mel_a)" .
  have "syd_mel_a / (1 - syd_mel_a) \<le> (2509 / 800000) / (1 - (2509 / 800000))"
    using syd_mel_a_bounds by (intro ratio_mono) simp_all
  also have "\<dots> \<le> ((56091 / 1000000) :: real)\<^sup>2"
    by (simp add: power_divide)
  finally show "syd_mel_a / (1 - syd_mel_a) \<le> (56091 / 1000000)\<^sup>2" .
qed

lemma syd_mel_km:
  "709 \<le> haversineKm (- 33.8688) 151.2093 (- 37.8136) 144.9631"
  "haversineKm (- 33.8688) 151.2093 (- 37.8136) 144.9631 \<le> 715"
proof -
  let ?t = "sqrt (syd_mel_a / (1 - syd_mel_a))"
  have lt1: "syd_mel_a < 1" using syd_mel_a_bounds(2) by simp
  have km: "haversineKm (- 33.8688) 151.2093 (- 37.8136) 144.9631 = 6371 * (2 * arctan ?t)"
    by (simp only: haversineKm_hav syd_mel_hav_a atan2_sqrt [OF lt1])
  have tl: "(2787 / 50000) \<le> ?t" by (rule real_le_rsqrt) (rule syd_mel_ratio)
  have tu: "?t \<le> (56091 / 1000000)" by (rule real_le_lsqrt) (simp, rule syd_mel_ratio)
  have "(2787 / 50000) - (2787 / 50000) ^ 3 / 3 \<le> arctan ((2787 / 50000) :: real)"
    by (rule arctan_ge_cubic) simp
  also have "\<dots> \<le> arctan ?t" using tl by (simp only: arctan_le_iff)
  finally have lo: "(2787 / 50000) - (2787 / 50000) ^ 3 / 3 \<le> arctan ?t" .
  have "0 \<le> ?t" using tl by linarith
  then have "arctan ?t \<le> ?t" by (rule arctan_le_self)
  with tu have hi: "arctan ?t \<le> (56091 / 1000000)" by linarith
  have "(709 :: real) \<le> 6371 * (2 * ((2787 / 50000) - (2787 / 50000) ^ 3 / 3))"
    by (simp add: power_divide)
  also have "\<dots> \<le> 6371 * (2 * arctan ?t)" using lo by simp
  finally show "709 \<le> haversineKm (- 33.8688) 151.2093 (- 37.8136) 144.9631"
    by (simp only: km)
  have "6371 * (2 * arctan ?t) \<le> 6371 * (2 * ((56091 / 1000000) :: real))" using hi by simp
  also have "\<dots> \<le> 715" by simp
  finally show "haversineKm (- 33.8688) 151.2093 (- 37.8136) 144.9631 \<le> 715"
    by (simp only: km)
qed

text \<open>
  Claim C8. \<^verbatim>\<open>haversineKm\<close> is the radius 6371 times the angle
  \<open>2 atan2(\<surd>a, \<surd>(1 - a))\<close>. It has a value for all arguments, and no square root is
  taken of a negative number, since \<open>a\<close> lies between 0 and 1 whatever the coordinates;
  the value lies between 0 and half the circumference, which is the distance of
  antipodes. The distance of a point to itself is 0, and from Sydney to Melbourne it is
  between 709 and 715 km, so within 10 km of 714. (Numbers are real numbers here.)
\<close>

theorem haversineKm_properties:
  "haversineKm lat1 lon1 lat2 lon2 =
     6371 * (2 * atan2 (sqrt (hav_a lat1 lon1 lat2 lon2)) (sqrt (1 - hav_a lat1 lon1 lat2 lon2)))
   \<and> 0 \<le> hav_a lat1 lon1 lat2 lon2 \<and> hav_a lat1 lon1 lat2 lon2 \<le> 1
   \<and> 0 \<le> haversineKm lat1 lon1 lat2 lon2 \<and> haversineKm lat1 lon1 lat2 lon2 \<le> 6371 * pi
   \<and> haversineKm 0 0 0 180 = 6371 * pi
   \<and> haversineKm lat1 lon1 lat1 lon1 = 0
   \<and> \<bar>haversineKm (- 33.8688) 151.2093 (- 37.8136) 144.9631 - 714\<bar> \<le> 10"
proof -
  have near: "\<bar>haversineKm (- 33.8688) 151.2093 (- 37.8136) 144.9631 - 714\<bar> \<le> 10"
    using syd_mel_km by linarith
  show ?thesis
    by (intro conjI haversineKm_hav hav_a_range haversineKm_nonneg haversineKm_le_half_circle
        haversineKm_antipodes haversineKm_same near)
qed

text \<open>Sydney to itself, and Sydney to Melbourne.\<close>

theorem haversineKm_properties_witness:
  "haversineKm (- 33.8688) 151.2093 (- 33.8688) 151.2093 = 0
   \<and> 704 \<le> haversineKm (- 33.8688) 151.2093 (- 37.8136) 144.9631
   \<and> haversineKm (- 33.8688) 151.2093 (- 37.8136) 144.9631 \<le> 724"
proof -
  note inst = haversineKm_properties [of "- 33.8688" "151.2093" "- 37.8136" "144.9631"]
  from inst have same: "haversineKm (- 33.8688) 151.2093 (- 33.8688) 151.2093 = 0"
    by blast
  from inst have "\<bar>haversineKm (- 33.8688) 151.2093 (- 37.8136) 144.9631 - 714\<bar> \<le> 10"
    by blast
  then have "704 \<le> haversineKm (- 33.8688) 151.2093 (- 37.8136) 144.9631
      \<and> haversineKm (- 33.8688) 151.2093 (- 37.8136) 144.9631 \<le> 724"
    by linarith
  with same show ?thesis by blast
qed

end
